theory Spec2Isabelle
  imports Complex_Main
begin

section \<open>Samples\<close>

text \<open>
  The DSP classes are templates over a floating-point type \<open>Sample\<close>. A sample is
  modelled as an exact real number, one of the two infinities, or NaN. The special
  values follow IEEE 754 (an invalid operation gives NaN, NaN is unordered and
  propagates, a nonzero finite value divided by zero gives an infinity). Rounding,
  overflow of finite results, the sign of zero and the sign of NaN are not modelled:
  finite results are exact and zero counts as positive. The adaptive notch filter
  is the exception: its arithmetic is written with an explicit rounding function,
  which covers rounding and overflow.
\<close>

datatype sample = Fin real | PInf | NInf | NaN

instantiation sample :: "{zero,one,plus,minus,uminus,times,inverse,ord}"
begin

definition zero_sample :: sample where
  "zero_sample = Fin 0"

definition one_sample :: sample where
  "one_sample = Fin 1"

fun uminus_sample :: "sample \<Rightarrow> sample" where
  "uminus_sample (Fin a) = Fin (- a)"
| "uminus_sample PInf = NInf"
| "uminus_sample NInf = PInf"
| "uminus_sample NaN = NaN"

fun plus_sample :: "sample \<Rightarrow> sample \<Rightarrow> sample" where
  "plus_sample (Fin a) (Fin b) = Fin (a + b)"
| "plus_sample NaN y = NaN"
| "plus_sample x NaN = NaN"
| "plus_sample PInf NInf = NaN"
| "plus_sample NInf PInf = NaN"
| "plus_sample PInf y = PInf"
| "plus_sample x PInf = PInf"
| "plus_sample NInf y = NInf"
| "plus_sample x NInf = NInf"

definition minus_sample :: "sample \<Rightarrow> sample \<Rightarrow> sample" where
  "minus_sample (x :: sample) y = x + (- y)"

fun times_sample :: "sample \<Rightarrow> sample \<Rightarrow> sample" where
  "times_sample (Fin a) (Fin b) = Fin (a * b)"
| "times_sample NaN y = NaN"
| "times_sample x NaN = NaN"
| "times_sample PInf (Fin b) = (if b = 0 then NaN else if 0 < b then PInf else NInf)"
| "times_sample NInf (Fin b) = (if b = 0 then NaN else if 0 < b then NInf else PInf)"
| "times_sample (Fin a) PInf = (if a = 0 then NaN else if 0 < a then PInf else NInf)"
| "times_sample (Fin a) NInf = (if a = 0 then NaN else if 0 < a then NInf else PInf)"
| "times_sample PInf PInf = PInf"
| "times_sample PInf NInf = NInf"
| "times_sample NInf PInf = NInf"
| "times_sample NInf NInf = PInf"

fun divide_sample :: "sample \<Rightarrow> sample \<Rightarrow> sample" where
  "divide_sample (Fin a) (Fin b) =
     (if b = 0 then (if a = 0 then NaN else if 0 < a then PInf else NInf)
      else Fin (a / b))"
| "divide_sample NaN y = NaN"
| "divide_sample x NaN = NaN"
| "divide_sample (Fin a) PInf = Fin 0"
| "divide_sample (Fin a) NInf = Fin 0"
| "divide_sample PInf (Fin b) = (if 0 \<le> b then PInf else NInf)"
| "divide_sample NInf (Fin b) = (if 0 \<le> b then NInf else PInf)"
| "divide_sample PInf PInf = NaN"
| "divide_sample PInf NInf = NaN"
| "divide_sample NInf PInf = NaN"
| "divide_sample NInf NInf = NaN"

definition inverse_sample :: "sample \<Rightarrow> sample" where
  "inverse_sample (x :: sample) = divide (Fin 1) x"

fun less_sample :: "sample \<Rightarrow> sample \<Rightarrow> bool" where
  "less_sample (Fin a) (Fin b) = (a < b)"
| "less_sample NaN y = False"
| "less_sample x NaN = False"
| "less_sample PInf y = False"
| "less_sample x NInf = False"
| "less_sample (Fin a) PInf = True"
| "less_sample NInf (Fin b) = True"
| "less_sample NInf PInf = True"

fun less_eq_sample :: "sample \<Rightarrow> sample \<Rightarrow> bool" where
  "less_eq_sample (Fin a) (Fin b) = (a \<le> b)"
| "less_eq_sample NaN y = False"
| "less_eq_sample x NaN = False"
| "less_eq_sample NInf y = True"
| "less_eq_sample x PInf = True"
| "less_eq_sample PInf (Fin b) = False"
| "less_eq_sample PInf NInf = False"
| "less_eq_sample (Fin a) NInf = False"

instance ..

end

text \<open>\<open>std::isfinite\<close>.\<close>

fun isfinite :: "sample \<Rightarrow> bool" where
  "isfinite (Fin a) = True"
| "isfinite x = False"

text \<open>
  \<open>std::clamp(v, lo, hi)\<close>: \<open>lo\<close> if \<open>v\<close> is less than \<open>lo\<close>, \<open>hi\<close> if \<open>hi\<close> is
  less than \<open>v\<close>, otherwise \<open>v\<close>. A NaN \<open>v\<close> compares false both times and is
  returned as it is; the standard does not require more of a NaN argument, and the
  library implementations return it. The standard also requires \<open>lo \<le> hi\<close>; the
  definition follows the two comparisons in their order where that fails.
\<close>

definition clamp :: "sample \<Rightarrow> sample \<Rightarrow> sample \<Rightarrow> sample" where
  "clamp v lo hi = (if v < lo then lo else if hi < v then hi else v)"

text \<open>\<open>std::min(a, b)\<close> is \<open>(b < a) ? b : a\<close>.\<close>

definition std_min :: "sample \<Rightarrow> sample \<Rightarrow> sample" where
  "std_min a b = (if b < a then b else a)"

text \<open>\<open>std::fabs\<close>, \<open>std::floor\<close>, \<open>std::copysign\<close>, \<open>std::sqrt\<close> and \<open>std::tan\<close>.\<close>

fun fabs :: "sample \<Rightarrow> sample" where
  "fabs (Fin a) = Fin \<bar>a\<bar>"
| "fabs PInf = PInf"
| "fabs NInf = PInf"
| "fabs NaN = NaN"

fun ffloor :: "sample \<Rightarrow> sample" where
  "ffloor (Fin a) = Fin (of_int \<lfloor>a\<rfloor>)"
| "ffloor x = x"

fun signbit :: "sample \<Rightarrow> bool" where
  "signbit (Fin a) = (a < 0)"
| "signbit NInf = True"
| "signbit x = False"

definition copysign :: "sample \<Rightarrow> sample \<Rightarrow> sample" where
  "copysign mag sg = (if signbit sg then - fabs mag else fabs mag)"

fun fsqrt :: "sample \<Rightarrow> sample" where
  "fsqrt (Fin a) = (if a < 0 then NaN else Fin (sqrt a))"
| "fsqrt PInf = PInf"
| "fsqrt x = NaN"

fun ftan :: "sample \<Rightarrow> sample" where
  "ftan (Fin a) = Fin (tan a)"
| "ftan x = NaN"

text \<open>
  \<open>std::pow(x, y)\<close> with the special cases of C Annex F: any base to the power zero
  is 1, 1 to any power is 1, a negative finite base needs an integral exponent, and
  the infinite cases follow the magnitude of the base and the sign of the exponent.
\<close>

fun fpow :: "sample \<Rightarrow> sample \<Rightarrow> sample" where
  "fpow x (Fin y) =
     (if y = 0 then Fin 1
      else case x of
        NaN \<Rightarrow> NaN
      | PInf \<Rightarrow> (if y < 0 then Fin 0 else PInf)
      | NInf \<Rightarrow>
          (if y < 0 then Fin 0
           else if y = of_int \<lfloor>y\<rfloor> \<and> odd \<lfloor>y\<rfloor> then NInf else PInf)
      | Fin a \<Rightarrow>
          (if 0 < a then Fin (a powr y)
           else if a = 0 then (if y < 0 then PInf else Fin 0)
           else if y = of_int \<lfloor>y\<rfloor>
             then Fin ((if odd \<lfloor>y\<rfloor> then - 1 else 1) * (\<bar>a\<bar> powr y))
             else NaN))"
| "fpow x PInf =
     (case x of
        NaN \<Rightarrow> NaN
      | Fin a \<Rightarrow> (if \<bar>a\<bar> < 1 then Fin 0 else if \<bar>a\<bar> = 1 then Fin 1 else PInf)
      | _ \<Rightarrow> PInf)"
| "fpow x NInf =
     (case x of
        NaN \<Rightarrow> NaN
      | Fin a \<Rightarrow> (if \<bar>a\<bar> < 1 then PInf else if \<bar>a\<bar> = 1 then Fin 1 else Fin 0)
      | _ \<Rightarrow> Fin 0)"
| "fpow x NaN = (if x = Fin 1 then Fin 1 else NaN)"

text \<open>
  \<open>std::lerp(a, b, t)\<close> returns \<open>a + t(b - a)\<close>; for finite \<open>a\<close> and \<open>b\<close> the
  standard requires the result to be exactly \<open>a\<close> at \<open>t = 0\<close> and exactly \<open>b\<close> at
  \<open>t = 1\<close>, which the formula gives in exact arithmetic. What an implementation
  returns for an infinite \<open>a\<close> or \<open>b\<close> is its own choice; a NaN argument gives NaN.
\<close>

definition lerp :: "sample \<Rightarrow> sample \<Rightarrow> sample \<Rightarrow> sample" where
  "lerp a b t = a + t * (b - a)"

text \<open>
  Conversion of a floating-point value to \<open>int\<close> truncates toward zero and is
  defined only when the truncated value fits 32 bits: \<open>None\<close> stands for the
  undefined conversions (NaN, the infinities, out of range).
\<close>

definition trunc :: "real \<Rightarrow> int" where
  "trunc r = (if 0 \<le> r then \<lfloor>r\<rfloor> else \<lceil>r\<rceil>)"

fun to_int :: "sample \<Rightarrow> int option" where
  "to_int (Fin r) =
     (if - (2 ^ 31) \<le> trunc r \<and> trunc r < 2 ^ 31 then Some (trunc r) else None)"
| "to_int x = None"

text \<open>\<open>Sample(std::numeric_limits<float>::epsilon())\<close>, which is \<open>2\<^sup>-\<^sup>2\<^sup>3\<close>.\<close>

definition float_epsilon :: real where
  "float_epsilon = 1 / 2 ^ 23"

text \<open>
  Conversion to \<open>size_t\<close> truncates toward zero and is defined when the truncated
  value fits 64 unsigned bits.
\<close>

fun to_size :: "sample \<Rightarrow> nat option" where
  "to_size (Fin r) =
     (if 0 \<le> trunc r \<and> trunc r < 2 ^ 64 then Some (nat (trunc r)) else None)"
| "to_size x = None"

text \<open>
  Reading and writing a \<open>std::vector\<close> or \<open>std::array\<close> by index. An index outside
  the container is undefined in the source and \<open>None\<close> here.
\<close>

definition load :: "'a list \<Rightarrow> int \<Rightarrow> 'a option" where
  "load xs i = (if 0 \<le> i \<and> i < int (length xs) then Some (xs ! nat i) else None)"

definition store :: "'a list \<Rightarrow> int \<Rightarrow> 'a \<Rightarrow> 'a list option" where
  "store xs i v = (if 0 \<le> i \<and> i < int (length xs) then Some (xs[nat i := v]) else None)"

section \<open>Envelopes of \<open>DoubleLoopCymbal/source/dsp/delay.hpp\<close>\<close>

text \<open>
  Each class is a record of its data members; the field names carry a short prefix
  of the class because several classes use the same member names (\<open>value\<close>,
  \<open>alpha\<close>, \<open>state\<close>, \<open>v1\<close>). A member function takes the object and returns
  the updated object, next to the returned value when it has one.
\<close>

record ExpDecay =
  expdecay_value :: sample
  expdecay_alpha :: sample

definition ExpDecay_setTime :: "ExpDecay \<Rightarrow> sample \<Rightarrow> bool \<Rightarrow> ExpDecay" where
  "ExpDecay_setTime e decayTimeInSamples sustain =
     e\<lparr>expdecay_alpha :=
         (if sustain then Fin 1
          else fpow (Fin float_epsilon) (Fin 1 / decayTimeInSamples))\<rparr>"

definition ExpDecay_reset :: "ExpDecay \<Rightarrow> ExpDecay" where
  "ExpDecay_reset e = e\<lparr>expdecay_value := Fin 0\<rparr>"

definition ExpDecay_trigger :: "ExpDecay \<Rightarrow> sample \<Rightarrow> ExpDecay" where
  "ExpDecay_trigger e gain = e\<lparr>expdecay_value := gain\<rparr>"

definition ExpDecay_process :: "ExpDecay \<Rightarrow> sample \<times> ExpDecay" where
  "ExpDecay_process e =
     (let v = expdecay_value e * expdecay_alpha e in (v, e\<lparr>expdecay_value := v\<rparr>))"

datatype DSRState = DSR_decay | DSR_release

record ExpDSREnvelope =
  dsr_value :: sample
  dsr_alphaD :: sample
  dsr_alphaR :: sample
  dsr_offset :: sample
  dsr_state :: DSRState

definition ExpDSREnvelope_setTime ::
  "ExpDSREnvelope \<Rightarrow> sample \<Rightarrow> sample \<Rightarrow> ExpDSREnvelope" where
  "ExpDSREnvelope_setTime e decayTimeInSamples releaseTimeInSamples =
     e\<lparr>dsr_alphaD := fpow (Fin float_epsilon) (Fin 1 / decayTimeInSamples),
       dsr_alphaR := fpow (Fin float_epsilon) (Fin 1 / releaseTimeInSamples)\<rparr>"

definition ExpDSREnvelope_reset :: "ExpDSREnvelope \<Rightarrow> ExpDSREnvelope" where
  "ExpDSREnvelope_reset e =
     e\<lparr>dsr_value := Fin 0, dsr_alphaD := Fin 0, dsr_alphaR := Fin 0,
       dsr_offset := Fin 0, dsr_state := DSR_release\<rparr>"

definition ExpDSREnvelope_trigger :: "ExpDSREnvelope \<Rightarrow> sample \<Rightarrow> ExpDSREnvelope" where
  "ExpDSREnvelope_trigger e sustainLevel =
     e\<lparr>dsr_state := DSR_decay, dsr_value := Fin 1 - sustainLevel,
       dsr_offset := sustainLevel\<rparr>"

definition ExpDSREnvelope_release :: "ExpDSREnvelope \<Rightarrow> ExpDSREnvelope" where
  "ExpDSREnvelope_release e = e\<lparr>dsr_state := DSR_release, dsr_offset := Fin 0\<rparr>"

definition ExpDSREnvelope_process :: "ExpDSREnvelope \<Rightarrow> sample \<times> ExpDSREnvelope" where
  "ExpDSREnvelope_process e =
     (if dsr_state e = DSR_decay
      then (let v = dsr_value e * dsr_alphaD e in (dsr_offset e + v, e\<lparr>dsr_value := v\<rparr>))
      else (let v = dsr_value e * dsr_alphaR e in (v, e\<lparr>dsr_value := v\<rparr>)))"

record TransitionReleaseSmoother =
  trs_v0 :: sample
  trs_decay :: sample

definition TransitionReleaseSmoother_reset ::
  "TransitionReleaseSmoother \<Rightarrow> TransitionReleaseSmoother" where
  "TransitionReleaseSmoother_reset t = t\<lparr>trs_v0 := Fin 0\<rparr>"

record ExpADEnvelope =
  ad_targetGain :: sample
  ad_velocity :: sample
  ad_gain :: sample
  ad_smoo :: sample
  ad_valueA :: sample
  ad_alphaA :: sample
  ad_valueD :: sample
  ad_alphaD :: sample

definition ExpADEnvelope_reset :: "ExpADEnvelope \<Rightarrow> ExpADEnvelope" where
  "ExpADEnvelope_reset e =
     e\<lparr>ad_targetGain := Fin 0, ad_gain := Fin 1, ad_valueA := Fin 0,
       ad_alphaA := Fin 0, ad_valueD := Fin 0, ad_alphaD := Fin 0\<rparr>"

section \<open>The delay line with fractional read\<close>

definition lagrange3Interp ::
  "sample \<Rightarrow> sample \<Rightarrow> sample \<Rightarrow> sample \<Rightarrow> sample \<Rightarrow> sample" where
  "lagrange3Interp y0 y1 y2 y3 t =
     (let u = Fin 1 + t;
          d0 = y0 - y1;
          d1 = d0 - (y1 - y2);
          d2 = d1 - ((y1 - y2) - (y2 - y3))
      in y0 - u * (d0 + (Fin 1 - u) / Fin 2 * (d1 + (Fin 2 - u) / Fin 3 * d2)))"

record Delay =
  delay_wptr :: int
  delay_buf :: "sample list"

text \<open>The object as its member initialisers leave it: \<open>wptr = 0\<close>, two zero samples.\<close>

definition Delay_init :: Delay where
  "Delay_init = \<lparr>delay_wptr = 0, delay_buf = [Fin 0, Fin 0]\<rparr>"

text \<open>\<open>std::vector::resize\<close>: shortens, or appends value-initialised elements.\<close>

definition resize :: "sample list \<Rightarrow> nat \<Rightarrow> sample list" where
  "resize xs n = take n xs @ replicate (n - length xs) (Fin 0)"

definition Delay_reset :: "Delay \<Rightarrow> Delay" where
  "Delay_reset d = d\<lparr>delay_buf := replicate (length (delay_buf d)) (Fin 0)\<rparr>"

text \<open>
  \<open>setup\<close>: the sum \<open>size_t(maxTimeSamples) + 4\<close> is unsigned 64-bit arithmetic and
  wraps.
\<close>

definition Delay_setup :: "Delay \<Rightarrow> sample \<Rightarrow> Delay option" where
  "Delay_setup d maxTimeSamples =
     (case to_size maxTimeSamples of
        None \<Rightarrow> None
      | Some n \<Rightarrow>
          Some (Delay_reset
            (d\<lparr>delay_buf := resize (delay_buf d) (max 4 ((n + 4) mod 2 ^ 64))\<rparr>)))"

definition Delay_applyGain :: "Delay \<Rightarrow> sample \<Rightarrow> Delay" where
  "Delay_applyGain d gain = d\<lparr>delay_buf := map (\<lambda>x. x * gain) (delay_buf d)\<rparr>"

text \<open>
  \<open>process\<close>. The source declares \<open>clamped\<close> as \<open>const int\<close>, so the clamped
  floating-point time is converted to \<open>int\<close> where it is initialised; \<open>timeInt\<close> is
  that same integer and \<open>rFraction\<close> the difference of the two, both converted
  back to \<open>Sample\<close>.
\<close>

definition wrap_index :: "int \<Rightarrow> int \<Rightarrow> int" where
  "wrap_index rptr n = (if rptr < 0 then rptr + n else rptr)"

definition Delay_process :: "Delay \<Rightarrow> sample \<Rightarrow> sample \<Rightarrow> (sample \<times> Delay) option" where
  "Delay_process d input timeInSamples =
     (let size = int (length (delay_buf d)) in
      case to_int (clamp (timeInSamples - Fin 1) (Fin 1) (Fin (of_int (size - 4)))) of
        None \<Rightarrow> None
      | Some clamped \<Rightarrow>
          (let timeInt = clamped;
               rFraction = Fin (of_int clamped) - Fin (of_int timeInt);
               wptr = (if delay_wptr d + 1 \<ge> size then 0 else delay_wptr d + 1)
           in case store (delay_buf d) wptr input of
             None \<Rightarrow> None
           | Some buf \<Rightarrow>
               (let rptr0 = wptr - timeInt;
                    rptr1 = rptr0 - 1;
                    rptr2 = rptr0 - 2;
                    rptr3 = rptr0 - 3
                in case (load buf (wrap_index rptr0 size), load buf (wrap_index rptr1 size),
                         load buf (wrap_index rptr2 size), load buf (wrap_index rptr3 size)) of
                     (Some y0, Some y1, Some y2, Some y3) \<Rightarrow>
                       Some (lagrange3Interp y0 y1 y2 y3 rFraction,
                             d\<lparr>delay_wptr := wptr, delay_buf := buf\<rparr>)
                   | _ \<Rightarrow> None)))"

section \<open>Filters of \<open>delay.hpp\<close>\<close>

record Highpass2 =
  hp2_ic1eq :: sample
  hp2_ic2eq :: sample

definition Highpass2_k :: sample where
  "Highpass2_k = Fin 0.7071067811865476"

definition Highpass2_reset :: "Highpass2 \<Rightarrow> Highpass2" where
  "Highpass2_reset h = h\<lparr>hp2_ic1eq := Fin 0, hp2_ic2eq := Fin 0\<rparr>"

text \<open>
  The coefficient \<open>g\<close> and the divisor of the one division of \<open>process\<close> are
  named, so that statements can refer to them.
\<close>

definition Highpass2_g :: "sample \<Rightarrow> sample" where
  "Highpass2_g cutoffNormalized =
     ftan (Fin pi * clamp cutoffNormalized (Fin 0.00001) (Fin 0.49998))"

definition Highpass2_divisor :: "sample \<Rightarrow> sample" where
  "Highpass2_divisor g = Fin 1 + g * (g + Highpass2_k)"

definition Highpass2_process :: "Highpass2 \<Rightarrow> sample \<Rightarrow> sample \<Rightarrow> sample \<times> Highpass2" where
  "Highpass2_process h input cutoffNormalized =
     (let g = Highpass2_g cutoffNormalized;
          v1 = (hp2_ic1eq h + g * (input - hp2_ic2eq h)) / Highpass2_divisor g;
          v2 = hp2_ic2eq h + g * v1
      in (input - Highpass2_k * v1 - v2,
          h\<lparr>hp2_ic1eq := Fin 2 * v1 - hp2_ic1eq h, hp2_ic2eq := Fin 2 * v2 - hp2_ic2eq h\<rparr>))"

record EmaHighShelf =
  hishelf_value :: sample

definition EmaHighShelf_reset :: "EmaHighShelf \<Rightarrow> EmaHighShelf" where
  "EmaHighShelf_reset f = f\<lparr>hishelf_value := Fin 0\<rparr>"

definition EmaHighShelf_process ::
  "EmaHighShelf \<Rightarrow> sample \<Rightarrow> sample \<Rightarrow> sample \<Rightarrow> sample \<times> EmaHighShelf" where
  "EmaHighShelf_process f input kp shelvingGain =
     (let v = hishelf_value f + kp * (input - hishelf_value f)
      in (lerp v input shelvingGain, f\<lparr>hishelf_value := v\<rparr>))"

record EmaLowShelf =
  loshelf_value :: sample

definition EmaLowShelf_reset :: "EmaLowShelf \<Rightarrow> EmaLowShelf" where
  "EmaLowShelf_reset f = f\<lparr>loshelf_value := Fin 0\<rparr>"

definition EmaLowShelf_process ::
  "EmaLowShelf \<Rightarrow> sample \<Rightarrow> sample \<Rightarrow> sample \<Rightarrow> sample \<times> EmaLowShelf" where
  "EmaLowShelf_process f input kp shelvingGain =
     (let v = loshelf_value f + kp * (input - loshelf_value f)
      in (lerp (input - v) input shelvingGain, f\<lparr>loshelf_value := v\<rparr>))"

section \<open>The adaptive notch filter\<close>

record AdaptiveNotchCPZ =
  notch_alpha :: sample
  notch_v1 :: sample
  notch_v2 :: sample

definition AdaptiveNotchCPZ_mu :: sample where
  "AdaptiveNotchCPZ_mu = Fin 2 / Fin 1024"

definition AdaptiveNotchCPZ_reset :: "AdaptiveNotchCPZ \<Rightarrow> AdaptiveNotchCPZ" where
  "AdaptiveNotchCPZ_reset n = n\<lparr>notch_alpha := Fin (- 2), notch_v1 := Fin 0, notch_v2 := Fin 0\<rparr>"

text \<open>
  \<open>process\<close>. The arithmetic of a floating-point format rounds, and a finite
  result beyond the range of the format overflows to an infinity. Where every other
  class of this theory is computed with exact finite results, \<open>process\<close> is
  written with the rounding of the sample format: the parameter \<open>fl\<close> is applied to
  the result of every addition, subtraction, multiplication and division of the
  function, in the order the expressions of the source are evaluated in. A
  statement for every \<open>fl\<close> holds whatever the format rounds and overflows to.
  The negation and \<open>std::clamp\<close> return their operands unrounded, and the two
  \<open>constexpr\<close> constants \<open>mu = 2/1024\<close> and \<open>clip = 1/epsilon\<close> are powers of two,
  exact in a binary format.

  The parameter \<open>epsilon\<close> is \<open>std::numeric_limits<Sample>::epsilon()\<close> of the
  sample type the template is instantiated with. The intermediate values \<open>v0\<close>,
  \<open>y0\<close> and \<open>s0\<close>, and the argument of the clamp of \<open>alpha\<close>, are functions of the
  state and the arguments.
\<close>

definition notch_x0 :: "real \<Rightarrow> sample \<Rightarrow> sample" where
  "notch_x0 epsilon input =
     (let clip = Fin 1 / Fin epsilon in clamp input (- clip) clip)"

definition notch_v0 ::
  "(sample \<Rightarrow> sample) \<Rightarrow> real \<Rightarrow> AdaptiveNotchCPZ \<Rightarrow> sample \<Rightarrow> sample \<Rightarrow> sample" where
  "notch_v0 fl epsilon n input narrowness =
     (let a1 = fl (narrowness * notch_alpha n);
          a2 = fl (narrowness * narrowness)
      in fl (fl (notch_x0 epsilon input - fl (a1 * notch_v1 n)) - fl (a2 * notch_v2 n)))"

definition notch_y0 ::
  "(sample \<Rightarrow> sample) \<Rightarrow> real \<Rightarrow> AdaptiveNotchCPZ \<Rightarrow> sample \<Rightarrow> sample \<Rightarrow> sample" where
  "notch_y0 fl epsilon n input narrowness =
     fl (fl (notch_v0 fl epsilon n input narrowness + fl (notch_alpha n * notch_v1 n))
         + notch_v2 n)"

definition notch_s0 ::
  "(sample \<Rightarrow> sample) \<Rightarrow> real \<Rightarrow> AdaptiveNotchCPZ \<Rightarrow> sample \<Rightarrow> sample \<Rightarrow> sample" where
  "notch_s0 fl epsilon n input narrowness =
     fl (fl (fl (Fin 1 - narrowness) * notch_v0 fl epsilon n input narrowness)
         - fl (fl (narrowness * fl (Fin 1 - narrowness)) * notch_v2 n))"

definition notch_update ::
  "(sample \<Rightarrow> sample) \<Rightarrow> real \<Rightarrow> AdaptiveNotchCPZ \<Rightarrow> sample \<Rightarrow> sample \<Rightarrow> sample" where
  "notch_update fl epsilon n input narrowness =
     fl (notch_alpha n
         - fl (fl (notch_y0 fl epsilon n input narrowness * notch_s0 fl epsilon n input narrowness)
               * AdaptiveNotchCPZ_mu))"

definition AdaptiveNotchCPZ_process ::
  "(sample \<Rightarrow> sample) \<Rightarrow> real \<Rightarrow> AdaptiveNotchCPZ \<Rightarrow> sample \<Rightarrow> sample
     \<Rightarrow> sample \<times> AdaptiveNotchCPZ" where
  "AdaptiveNotchCPZ_process fl epsilon n input narrowness =
     (let a1 = fl (narrowness * notch_alpha n);
          a2 = fl (narrowness * narrowness);
          gain = (if notch_alpha n \<ge> Fin 0
                  then fl (fl (fl (Fin 1 + a1) + a2) / fl (Fin 2 + notch_alpha n))
                  else fl (fl (fl (Fin 1 - a1) + a2) / fl (Fin 2 - notch_alpha n)));
          v0 = notch_v0 fl epsilon n input narrowness;
          y0 = notch_y0 fl epsilon n input narrowness;
          bound = Fin 2
      in (fl (y0 * gain),
          n\<lparr>notch_alpha := clamp (notch_update fl epsilon n input narrowness) (- bound) bound,
            notch_v2 := notch_v1 n,
            notch_v1 := v0\<rparr>))"

text \<open>A run of \<open>process\<close> over a sequence of (input, narrowness) pairs.\<close>

fun AdaptiveNotchCPZ_run ::
  "(sample \<Rightarrow> sample) \<Rightarrow> real \<Rightarrow> AdaptiveNotchCPZ \<Rightarrow> (sample \<times> sample) list
     \<Rightarrow> AdaptiveNotchCPZ" where
  "AdaptiveNotchCPZ_run fl epsilon n [] = n"
| "AdaptiveNotchCPZ_run fl epsilon n ((input, narrowness) # rest) =
     AdaptiveNotchCPZ_run fl epsilon
       (snd (AdaptiveNotchCPZ_process fl epsilon n input narrowness)) rest"

section \<open>The serial allpass chain\<close>

text \<open>
  The template parameter \<open>nAllpass\<close> is the length of \<open>buffer\<close> (and of the arrays
  of delays and shelving filters), \<open>nAdaptiveNotch\<close> the length of \<open>notch\<close>.
\<close>

record SerialAllpass =
  sap_buffer :: "sample list"
  sap_delay :: "Delay list"
  sap_lowpass :: "EmaHighShelf list"
  sap_highpass :: "EmaLowShelf list"
  sap_notch :: "AdaptiveNotchCPZ list"
  sap_timeInSamples :: "sample list"

definition SerialAllpass_reset :: "SerialAllpass \<Rightarrow> SerialAllpass" where
  "SerialAllpass_reset a =
     a\<lparr>sap_buffer := replicate (length (sap_buffer a)) (Fin 0),
       sap_delay := map Delay_reset (sap_delay a),
       sap_lowpass := map EmaHighShelf_reset (sap_lowpass a),
       sap_highpass := map EmaLowShelf_reset (sap_highpass a),
       sap_notch := map AdaptiveNotchCPZ_reset (sap_notch a)\<rparr>"

text \<open>
  \<open>sum\<close>: the range-for loop carries \<open>sumAlt\<close> and \<open>sign\<close>; \<open>std::accumulate\<close>
  adds the elements to the initial value from left to right.
\<close>

fun sumAlt_loop :: "sample list \<Rightarrow> sample \<Rightarrow> sample \<Rightarrow> sample" where
  "sumAlt_loop [] sumAlt sign = sumAlt"
| "sumAlt_loop (x # xs) sumAlt sign = sumAlt_loop xs (sumAlt + x * sign) (- sign)"

definition accumulate :: "sample list \<Rightarrow> sample \<Rightarrow> sample" where
  "accumulate xs init = foldl (+) init xs"

definition SerialAllpass_sum :: "SerialAllpass \<Rightarrow> sample \<Rightarrow> sample" where
  "SerialAllpass_sum a altSignMix =
     (let sumAlt = sumAlt_loop (sap_buffer a) (Fin 0) (Fin 1);
          sumDirect = accumulate (sap_buffer a) (Fin 0)
      in lerp sumDirect sumAlt altSignMix / (Fin 2 * Fin (real (length (sap_buffer a)))))"

record HalfClosedNoise =
  hcn_phase :: sample
  hcn_gain :: sample
  hcn_decay :: sample
  hcn_highpass :: Highpass2

definition HalfClosedNoise_reset :: "HalfClosedNoise \<Rightarrow> HalfClosedNoise" where
  "HalfClosedNoise_reset n =
     n\<lparr>hcn_phase := Fin 0, hcn_gain := Fin 1,
       hcn_highpass := Highpass2_reset (hcn_highpass n)\<rparr>"

section \<open>Envelope and LFO of \<open>TestBedSynth/source/dsp/lfo.hpp\<close>\<close>

record EMAHighpass =
  emahp_v1 :: sample

definition EMAHighpass_reset :: "EMAHighpass \<Rightarrow> sample \<Rightarrow> EMAHighpass" where
  "EMAHighpass_reset f v = f\<lparr>emahp_v1 := v\<rparr>"

definition EMAHighpass_process :: "EMAHighpass \<Rightarrow> sample \<Rightarrow> sample \<Rightarrow> sample \<times> EMAHighpass" where
  "EMAHighpass_process f input kp =
     (let v = emahp_v1 f + kp * (input - emahp_v1 f) in (input - v, f\<lparr>emahp_v1 := v\<rparr>))"

text \<open>
  Modelled from the spec: \<open>DoubleEMAFilter\<close> of \<open>common/dsp/smoother.hpp\<close>, which is
  not among the sources. \<open>lfo.hpp\<close> reads its member \<open>v2\<close> and calls \<open>reset()\<close> and
  \<open>processKp\<close>. The spec describes the smoothers as exponential moving averages
  whose state scalars are reset to exactly zero by \<open>reset()\<close>; the filter is taken
  as two stages \<open>v1\<close>, \<open>v2\<close> with that reset. \<open>processKp\<close> is not described and is
  a parameter of every function that calls it.
\<close>

record DoubleEMAFilter =
  dema_v1 :: sample
  dema_v2 :: sample

definition DoubleEMAFilter_reset :: "DoubleEMAFilter \<Rightarrow> DoubleEMAFilter" where
  "DoubleEMAFilter_reset f = f\<lparr>dema_v1 := Fin 0, dema_v2 := Fin 0\<rparr>"

type_synonym processKp_fn = "DoubleEMAFilter \<Rightarrow> sample \<Rightarrow> sample \<Rightarrow> sample \<times> DoubleEMAFilter"

record EasyLfo =
  lfo_phase :: sample
  lfo_smoother :: DoubleEMAFilter

definition EasyLfo_reset :: "EasyLfo \<Rightarrow> EasyLfo" where
  "EasyLfo_reset l =
     l\<lparr>lfo_phase := Fin 0, lfo_smoother := DoubleEMAFilter_reset (lfo_smoother l)\<rparr>"

datatype ADSRState = ADSR_attack | ADSR_decay | ADSR_release | ADSR_terminated

record ADSREnvelope =
  adsr_state :: ADSRState
  adsr_attackLength :: nat
  adsr_counter :: nat
  adsr_atkKp :: sample
  adsr_decKp :: sample
  adsr_relKp :: sample
  adsr_smoother :: DoubleEMAFilter

definition ADSREnvelope_value :: "ADSREnvelope \<Rightarrow> sample" where
  "ADSREnvelope_value e = dema_v2 (adsr_smoother e)"

definition ADSREnvelope_isAttacking :: "ADSREnvelope \<Rightarrow> bool" where
  "ADSREnvelope_isAttacking e = (adsr_state e = ADSR_attack)"

definition ADSREnvelope_isTerminated :: "ADSREnvelope \<Rightarrow> bool" where
  "ADSREnvelope_isTerminated e = (adsr_state e = ADSR_terminated)"

definition ADSREnvelope_reset :: "ADSREnvelope \<Rightarrow> ADSREnvelope" where
  "ADSREnvelope_reset e =
     e\<lparr>adsr_state := ADSR_terminated,
       adsr_smoother := DoubleEMAFilter_reset (adsr_smoother e)\<rparr>"

definition ADSREnvelope_noteOn :: "ADSREnvelope \<Rightarrow> nat \<Rightarrow> ADSREnvelope" where
  "ADSREnvelope_noteOn e attackSamples =
     e\<lparr>adsr_state := ADSR_attack, adsr_attackLength := attackSamples, adsr_counter := 0,
       adsr_smoother := DoubleEMAFilter_reset (adsr_smoother e)\<rparr>"

definition ADSREnvelope_noteOff :: "ADSREnvelope \<Rightarrow> ADSREnvelope" where
  "ADSREnvelope_noteOff e = e\<lparr>adsr_state := ADSR_release\<rparr>"

definition ADSREnvelope_prepare ::
  "ADSREnvelope \<Rightarrow> sample \<Rightarrow> sample \<Rightarrow> sample \<Rightarrow> ADSREnvelope" where
  "ADSREnvelope_prepare e attackKp decayKp releaseKp =
     e\<lparr>adsr_atkKp := attackKp, adsr_decKp := decayKp, adsr_relKp := releaseKp\<rparr>"

text \<open>\<open>process\<close>; \<open>counter\<close> is a \<open>size_t\<close> and the increment wraps at \<open>2\<^sup>6\<^sup>4\<close>.\<close>

definition ADSREnvelope_process ::
  "processKp_fn \<Rightarrow> ADSREnvelope \<Rightarrow> sample \<Rightarrow> sample \<times> ADSREnvelope" where
  "ADSREnvelope_process processKp e sustainAmplitude =
     (if adsr_state e = ADSR_attack then
        (let counter = (adsr_counter e + 1) mod 2 ^ 64;
             e1 = e\<lparr>adsr_counter := counter,
                    adsr_state := (if counter \<ge> adsr_attackLength e then ADSR_decay
                                   else ADSR_attack)\<rparr>;
             ramp = Fin (real counter) / Fin (real (adsr_attackLength e div 2));
             r = processKp (adsr_smoother e1) (std_min ramp (Fin 1)) (adsr_atkKp e1)
         in (fst r, e1\<lparr>adsr_smoother := snd r\<rparr>))
      else if adsr_state e = ADSR_decay then
        (let r = processKp (adsr_smoother e) sustainAmplitude (adsr_decKp e)
         in (fst r, e\<lparr>adsr_smoother := snd r\<rparr>))
      else if adsr_state e = ADSR_release then
        (let e1 = (if dema_v2 (adsr_smoother e) \<le> Fin float_epsilon
                   then e\<lparr>adsr_state := ADSR_terminated,
                          adsr_smoother := DoubleEMAFilter_reset (adsr_smoother e)\<rparr>
                   else e);
             r = processKp (adsr_smoother e1) (Fin 0) (adsr_relKp e1)
         in (fst r, e1\<lparr>adsr_smoother := snd r\<rparr>))
      else (Fin 0, e))"

section \<open>Voices of \<open>TestBedSynth/source/dsp/dspcore.cpp\<close>\<close>

text \<open>
  The declaration of \<open>Note\<close> (\<open>dspcore.hpp\<close>) and the oscillator classes are not
  among the sources. The record holds the members \<open>dspcore.cpp\<close> uses for the voice
  lifecycle; the field \<open>note_voice\<close> of an arbitrary type stands for the remaining
  members (\<open>noteHz\<close>, \<open>modulation\<close>, \<open>feedback\<close>, the per-oscillator envelopes,
  the LFOs and the oscillators).
\<close>

datatype NoteState = Note_active | Note_release | Note_rest

record 'v Note =
  note_state :: NoteState
  note_id :: int
  note_velocity :: sample
  note_pan :: sample
  note_gainEnvelope :: ADSREnvelope
  note_voice :: 'v

definition Note_noteOff :: "'v Note \<Rightarrow> 'v Note" where
  "Note_noteOff n =
     (if note_state n = Note_rest then n
      else n\<lparr>note_state := Note_release,
             note_gainEnvelope := ADSREnvelope_noteOff (note_gainEnvelope n)\<rparr>)"

definition Note_rest_fn :: "'v Note \<Rightarrow> 'v Note" where
  "Note_rest_fn n = n\<lparr>note_state := Note_rest, note_id := - 1\<rparr>"

definition Note_isAttacking :: "'v Note \<Rightarrow> bool" where
  "Note_isAttacking n = ADSREnvelope_isAttacking (note_gainEnvelope n)"

definition Note_getGain :: "'v Note \<Rightarrow> sample" where
  "Note_getGain n = note_velocity n * ADSREnvelope_value (note_gainEnvelope n)"

text \<open>
  \<open>Note::process\<close>. The two loops over the oscillators update the remaining members
  and leave \<open>feedback[0]\<close> and \<open>feedback[1]\<close>; they are the parameter
  \<open>oscillators\<close>, from the remaining members to the two feedback values and the
  updated members. \<open>gainSustainAmplitude\<close> and \<open>oscMix\<close> are the values read from
  \<open>info\<close>.
\<close>

definition Note_process ::
  "processKp_fn \<Rightarrow> ('v \<Rightarrow> (sample \<times> sample) \<times> 'v) \<Rightarrow> sample \<Rightarrow> sample \<Rightarrow> 'v Note
     \<Rightarrow> (sample \<times> sample) \<times> 'v Note" where
  "Note_process processKp oscillators gainSustainAmplitude oscMix n =
     (if note_state n = Note_rest then ((Fin 0, Fin 0), n)
      else
        (let n1 = n\<lparr>note_gainEnvelope :=
                      snd (ADSREnvelope_process processKp (note_gainEnvelope n)
                             gainSustainAmplitude)\<rparr>
         in if ADSREnvelope_isTerminated (note_gainEnvelope n1)
            then ((Fin 0, Fin 0), n1\<lparr>note_state := Note_rest\<rparr>)
            else
              (let r = oscillators (note_voice n1);
                   feedback0 = fst (fst r);
                   feedback1 = snd (fst r);
                   sig = ADSREnvelope_value (note_gainEnvelope n1) * note_velocity n1
                           * lerp feedback0 feedback1 oscMix
               in (((Fin 1 - note_pan n1) * sig, note_pan n1 * sig),
                   n1\<lparr>note_voice := snd r\<rparr>))))"

text \<open>
  The loop over the voices at the head of \<open>DSPCore::processSample\<close>: a voice at rest
  is skipped, every other voice is processed and its signal added to the frame.
\<close>

fun processSample_notes ::
  "('v Note \<Rightarrow> (sample \<times> sample) \<times> 'v Note) \<Rightarrow> 'v Note list \<Rightarrow> sample \<times> sample
     \<Rightarrow> (sample \<times> sample) \<times> 'v Note list" where
  "processSample_notes process [] frame = (frame, [])"
| "processSample_notes process (note # notes) frame =
     (if note_state note = Note_rest
      then (let r = processSample_notes process notes frame in (fst r, note # snd r))
      else
        (let sig = process note;
             r = processSample_notes process notes
                   (fst frame + fst (fst sig), snd frame + snd (fst sig))
         in (fst r, snd sig # snd r)))"

subsection \<open>Voice allocation in \<open>DSPCore::noteOn\<close>\<close>

definition nUnison :: nat where
  "nUnison = 1"

text \<open>The first loop: pick the voice that plays \<open>noteId\<close> already, or a resting one.\<close>

fun noteOn_pickResting :: "'v Note list \<Rightarrow> int \<Rightarrow> nat list \<Rightarrow> nat list \<Rightarrow> nat list" where
  "noteOn_pickResting notes noteId [] noteIndices = noteIndices"
| "noteOn_pickResting notes noteId (index # indices) noteIndices =
     (let ni1 = (if note_id (notes ! index) = noteId then noteIndices @ [index]
                 else noteIndices);
          ni2 = (if note_state (notes ! index) = Note_rest then ni1 @ [index] else ni1)
      in if length ni2 \<ge> nUnison then ni2
         else noteOn_pickResting notes noteId indices ni2)"

text \<open>The comparison the source passes to \<open>std::sort\<close>.\<close>

definition noteOn_compare :: "'v Note list \<Rightarrow> nat \<Rightarrow> nat \<Rightarrow> bool" where
  "noteOn_compare notes lhs rhs =
     (\<not> Note_isAttacking (notes ! lhs)
      \<and> Note_getGain (notes ! lhs) < Note_getGain (notes ! rhs))"

text \<open>
  \<open>std::sort\<close> belongs to the C++ standard library. On a range of at most 16
  elements the library implementations sort by insertion: each element in turn
  moves to the front if it compares less than the first element, and otherwise
  moves left past every element it compares less than. The function
  \<open>linear_insert\<close> takes the sorted prefix in reverse (nearest element first).
\<close>

fun linear_insert :: "('a \<Rightarrow> 'a \<Rightarrow> bool) \<Rightarrow> 'a \<Rightarrow> 'a list \<Rightarrow> 'a list" where
  "linear_insert cmp val [] = [val]"
| "linear_insert cmp val (y # earlier) =
     (if cmp val y then y # linear_insert cmp val earlier else val # y # earlier)"

fun insertion_sort :: "('a \<Rightarrow> 'a \<Rightarrow> bool) \<Rightarrow> 'a list \<Rightarrow> 'a list \<Rightarrow> 'a list" where
  "insertion_sort cmp front [] = front"
| "insertion_sort cmp [] (x # xs) = insertion_sort cmp [x] xs"
| "insertion_sort cmp (first # others) (x # xs) =
     insertion_sort cmp
       (if cmp x first then x # first # others
        else rev (linear_insert cmp x (rev (first # others))))
       xs"

definition std_sort :: "('a \<Rightarrow> 'a \<Rightarrow> bool) \<Rightarrow> 'a list \<Rightarrow> 'a list" where
  "std_sort cmp xs = insertion_sort cmp [] xs"

text \<open>
  The second loop takes voices from the front of the sorted indices. It calls
  \<open>fillTransitionBuffer(index)\<close> for each, which renders the tail of the stolen voice
  and has no part in which index is taken.
\<close>

fun noteOn_steal :: "nat list \<Rightarrow> nat list \<Rightarrow> nat list" where
  "noteOn_steal [] noteIndices = noteIndices"
| "noteOn_steal (index # indices) noteIndices =
     (let ni = noteIndices @ [index]
      in if length ni \<ge> nUnison then ni else noteOn_steal indices ni)"

text \<open>
  \<open>noteIndices\<close> as \<open>DSPCore::noteOn\<close> computes it from the voices, \<open>nVoice\<close> and
  the note id; the new note is started on the voice \<open>noteIndices[0]\<close>.
\<close>

definition noteOn_noteIndices :: "'v Note list \<Rightarrow> nat \<Rightarrow> int \<Rightarrow> nat list" where
  "noteOn_noteIndices notes nVoice noteId =
     (let noteIndices = noteOn_pickResting notes noteId [0..<nVoice] []
      in if length noteIndices < nUnison
         then noteOn_steal (std_sort (noteOn_compare notes) [0..<nVoice]) noteIndices
         else noteIndices)"

section \<open>The fold shaper of \<open>FoldShaper/source/dsp/foldshaper.hpp\<close>\<close>

definition safeClip :: "sample \<Rightarrow> sample" where
  "safeClip input =
     (if isfinite input then clamp input (Fin (- 1024)) (Fin 1024) else Fin 0)"

text \<open>
  The constants of \<open>Fir16FoldUpSample\<close> (the struct is declared in
  \<open>TestBedSynth/source/dsp/dspcore.cpp\<close>).
\<close>

definition Fir16FoldUpSample_bufferSize :: nat where
  "Fir16FoldUpSample_bufferSize = 32"

definition Fir16FoldUpSample_intDelay :: nat where
  "Fir16FoldUpSample_intDelay = 15"

definition Fir16FoldUpSample_upfold :: nat where
  "Fir16FoldUpSample_upfold = 16"

text \<open>
  The classes \<open>FirUpSampler\<close>, \<open>DecimationLowpass\<close> and \<open>HalfBandIIR\<close> of
  \<open>common/dsp/multirate.hpp\<close> are not among the sources; the three members of
  these types are fields of arbitrary types.
\<close>

record ('u, 'l, 'h) FoldShaper =
  fs_gain :: sample
  fs_multiply :: sample
  fs_hardclip :: bool
  fs_upSampler :: 'u
  fs_lowpass :: 'l
  fs_halfbandIir :: 'h

definition FoldShaper_latency :: "('u, 'l, 'h) FoldShaper \<Rightarrow> nat" where
  "FoldShaper_latency fs = Fir16FoldUpSample_intDelay"

text \<open>
  \<open>reset\<close> calls the \<open>reset\<close> of the three members. The three functions are
  parameters, as the classes are not among the sources.
\<close>

definition FoldShaper_reset ::
  "('u \<Rightarrow> 'u) \<Rightarrow> ('l \<Rightarrow> 'l) \<Rightarrow> ('h \<Rightarrow> 'h) \<Rightarrow> ('u, 'l, 'h) FoldShaper
     \<Rightarrow> ('u, 'l, 'h) FoldShaper" where
  "FoldShaper_reset upSampler_reset lowpass_reset halfbandIir_reset fs =
     fs\<lparr>fs_upSampler := upSampler_reset (fs_upSampler fs),
        fs_lowpass := lowpass_reset (fs_lowpass fs),
        fs_halfbandIir := halfbandIir_reset (fs_halfbandIir fs)\<rparr>"

text \<open>The remainder of C++ integer division, which truncates toward zero.\<close>

definition c_rem :: "int \<Rightarrow> int \<Rightarrow> int" where
  "c_rem a b = sgn a * (\<bar>a\<bar> mod \<bar>b\<bar>)"

text \<open>
  \<open>process\<close>. The conversion \<open>int(floored)\<close> is undefined when \<open>floored\<close> is NaN,
  infinite or beyond the range of \<open>int\<close>; the parameter \<open>undefined_int\<close> is the
  integer the conversion delivers in that case, so that a statement for every
  \<open>undefined_int\<close> covers whatever the platform does there. The function reads the
  three settings and changes no member.
\<close>

definition FoldShaper_process ::
  "int \<Rightarrow> ('u, 'l, 'h) FoldShaper \<Rightarrow> sample \<Rightarrow> sample" where
  "FoldShaper_process undefined_int fs x =
     (let x0 = (if fs_hardclip fs then clamp x (Fin (- 1)) (Fin 1) else x);
          absed = fabs (x0 * fs_gain fs);
          floored = ffloor absed;
          mul = fpow (fs_multiply fs) floored;
          floored_int = (case to_int floored of Some i \<Rightarrow> i | None \<Rightarrow> undefined_int);
          output =
            (if c_rem floored_int 2 = 1
             then copysign (Fin 1) x0 - copysign (mul * (absed - floored)) x0
             else if floored \<ge> Fin 1
             then copysign (mul * (absed - floored) + (Fin 1 - mul / fs_multiply fs)) x0
             else copysign (mul * (absed - floored) + (Fin 1 - mul)) x0)
      in safeClip output)"

section \<open>The state variable filters of \<open>GrowlSynth/source/dsp/filter.hpp\<close>\<close>

datatype SVFType =
  lowpass | bandpass | highpass | notch | peak | allpass | bell | lowshelf | highshelf

record SVF =
  svf_s1 :: sample
  svf_s2 :: sample

definition SVF_minCutoff :: sample where
  "SVF_minCutoff = Fin 0.00001"

definition SVF_nyquist :: sample where
  "SVF_nyquist = Fin 0.49998"

definition SVF_reset :: "SVF \<Rightarrow> SVF" where
  "SVF_reset f = f\<lparr>svf_s1 := Fin 0, svf_s2 := Fin 0\<rparr>"

text \<open>
  The coefficients \<open>A\<close>, \<open>g\<close> and \<open>k\<close> of \<open>SVF::process\<close> and the divisor of its
  tick are named one by one. The template parameter \<open>type\<close> is the first argument;
  \<open>type >= SVFTool::bell\<close> holds for \<open>bell\<close>, \<open>lowshelf\<close> and \<open>highshelf\<close>.
\<close>

definition SVF_A :: "SVFType \<Rightarrow> sample \<Rightarrow> sample" where
  "SVF_A ty shelvingGainAmp =
     (if ty = bell \<or> ty = lowshelf \<or> ty = highshelf then fsqrt shelvingGainAmp else Fin 1)"

definition SVF_g :: "SVFType \<Rightarrow> sample \<Rightarrow> sample \<Rightarrow> sample" where
  "SVF_g ty normalizedFreq A =
     (let g = ftan (clamp normalizedFreq SVF_minCutoff SVF_nyquist * Fin pi)
      in if ty = lowshelf then g / fsqrt A
         else if ty = highshelf then g * fsqrt A
         else g)"

definition SVF_k :: "SVFType \<Rightarrow> sample \<Rightarrow> sample \<Rightarrow> sample" where
  "SVF_k ty Q A = (let k = Fin 1 / Q in if ty = bell then k / A else k)"

definition SVF_divisor :: "sample \<Rightarrow> sample \<Rightarrow> sample" where
  "SVF_divisor g k = Fin 1 + g * (g + k)"

definition SVF_process ::
  "SVFType \<Rightarrow> SVF \<Rightarrow> sample \<Rightarrow> sample \<Rightarrow> sample \<Rightarrow> sample \<Rightarrow> sample \<times> SVF" where
  "SVF_process ty f v0 normalizedFreq Q shelvingGainAmp =
     (let A = SVF_A ty shelvingGainAmp;
          g = SVF_g ty normalizedFreq A;
          k = SVF_k ty Q A;
          v1 = (svf_s1 f + g * (v0 - svf_s2 f)) / SVF_divisor g k;
          v2 = svf_s2 f + g * v1;
          f' = f\<lparr>svf_s1 := Fin 2 * v1 - svf_s1 f, svf_s2 := Fin 2 * v2 - svf_s2 f\<rparr>
      in (case ty of
            lowpass \<Rightarrow> v2
          | bandpass \<Rightarrow> v1
          | highpass \<Rightarrow> v0 - k * v1 - v2
          | notch \<Rightarrow> v0 - k * v1
          | peak \<Rightarrow> v0 - k * v1 - Fin 2 * v2
          | allpass \<Rightarrow> v0 - Fin 2 * k * v1
          | bell \<Rightarrow> v0 + k * (A * A - Fin 1) * v1
          | lowshelf \<Rightarrow> v0 + (A - Fin 1) * k * v1 + (A * A - Fin 1) * v2
          | highshelf \<Rightarrow> A * A * (v0 - k * v1 - v2) + A * k * v1 + v2,
          f'))"

text \<open>
  The divisors of the divisions \<open>SVF::process\<close> evaluates, in the order of
  evaluation: \<open>g /= sqrt(A)\<close> for the low shelf, \<open>1 / Q\<close>, \<open>k /= A\<close> for the bell,
  and the division of the tick.
\<close>

definition SVF_divisors :: "SVFType \<Rightarrow> sample \<Rightarrow> sample \<Rightarrow> sample \<Rightarrow> sample list" where
  "SVF_divisors ty normalizedFreq Q shelvingGainAmp =
     (let A = SVF_A ty shelvingGainAmp;
          g = SVF_g ty normalizedFreq A;
          k = SVF_k ty Q A
      in (if ty = lowshelf then [fsqrt A] else [])
         @ [Q]
         @ (if ty = bell then [A] else [])
         @ [SVF_divisor g k])"

text \<open>
  Modelled from the spec: \<open>ExpSmoother\<close> of \<open>common/dsp/smoother.hpp\<close>, which is not
  among the sources. \<open>SVFHighpass\<close> reads its members \<open>target\<close> and \<open>value\<close> and
  calls \<open>reset\<close> and \<open>push\<close>. After the spec, \<open>reset\<close> applies a value immediately
  and \<open>push\<close> sets it as the target to smooth to.
\<close>

record ExpSmoother =
  smoother_value :: sample
  smoother_target :: sample

definition ExpSmoother_reset :: "ExpSmoother \<Rightarrow> sample \<Rightarrow> ExpSmoother" where
  "ExpSmoother_reset s v = s\<lparr>smoother_value := v, smoother_target := v\<rparr>"

definition ExpSmoother_push :: "ExpSmoother \<Rightarrow> sample \<Rightarrow> ExpSmoother" where
  "ExpSmoother_push s v = s\<lparr>smoother_target := v\<rparr>"

record SVFHighpass =
  svfhp_s1 :: sample
  svfhp_s2 :: sample
  svfhp_g :: ExpSmoother
  svfhp_d :: ExpSmoother
  svfhp_k :: ExpSmoother

text \<open>
  The macro \<open>ASSIGN_COEFFICINETS(METHOD, EXTRA)\<close> with \<open>METHOD\<close> as a parameter;
  \<open>SVFHighpass_reset\<close> and \<open>SVFHighpass_push\<close> are its two expansions.
\<close>

definition SVFHighpass_divisor :: "sample \<Rightarrow> sample \<Rightarrow> sample" where
  "SVFHighpass_divisor g_target k_target = Fin 1 + g_target * g_target + g_target * k_target"

definition SVFHighpass_assign ::
  "(ExpSmoother \<Rightarrow> sample \<Rightarrow> ExpSmoother) \<Rightarrow> SVFHighpass \<Rightarrow> sample \<Rightarrow> sample \<Rightarrow> SVFHighpass" where
  "SVFHighpass_assign smoother_set f freqNormalized Q =
     (let g = smoother_set (svfhp_g f)
                (ftan (Fin pi * clamp freqNormalized SVF_minCutoff SVF_nyquist));
          k = smoother_set (svfhp_k f) (Fin 1 / Q);
          d = smoother_set (svfhp_d f)
                (Fin 1 / SVFHighpass_divisor (smoother_target g) (smoother_target k))
      in f\<lparr>svfhp_g := g, svfhp_k := k, svfhp_d := d\<rparr>)"

definition SVFHighpass_reset :: "SVFHighpass \<Rightarrow> sample \<Rightarrow> sample \<Rightarrow> SVFHighpass" where
  "SVFHighpass_reset f freqNormalized Q =
     SVFHighpass_assign ExpSmoother_reset (f\<lparr>svfhp_s1 := Fin 0, svfhp_s2 := Fin 0\<rparr>)
       freqNormalized Q"

definition SVFHighpass_push :: "SVFHighpass \<Rightarrow> sample \<Rightarrow> sample \<Rightarrow> SVFHighpass" where
  "SVFHighpass_push f freqNormalized Q =
     SVFHighpass_assign ExpSmoother_push f freqNormalized Q"

text \<open>
  The one-pole filters \<open>LP1\<close>, \<open>HP1\<close> and \<open>AP1\<close>. Each of them declares the
  constants \<open>minCutoff = 0.00001\<close> and \<open>nyquist = 0.49998\<close> of \<open>SVF\<close>, for which
  \<open>SVF_minCutoff\<close> and \<open>SVF_nyquist\<close> stand. The macro \<open>ASSIGN_COEFFICINETS(METHOD)\<close>
  of each class begins with the same two statements, the clamp of the cutoff and
  \<open>k = 1 / tan(pi * cutoff)\<close>; the tangent, \<open>k\<close>, and the \<open>a0 = 1 + k\<close> of \<open>LP1\<close> and
  \<open>HP1\<close> are named. \<open>METHOD\<close> is a parameter, and \<open>reset\<close> and \<open>push\<close> are the two
  expansions.
\<close>

definition onepole_tan :: "sample \<Rightarrow> sample" where
  "onepole_tan cutoffNormalized =
     (let cutoff = clamp cutoffNormalized SVF_minCutoff SVF_nyquist
      in ftan (Fin pi * cutoff))"

definition onepole_k :: "sample \<Rightarrow> sample" where
  "onepole_k cutoffNormalized = Fin 1 / onepole_tan cutoffNormalized"

definition onepole_a0 :: "sample \<Rightarrow> sample" where
  "onepole_a0 cutoffNormalized = Fin 1 + onepole_k cutoffNormalized"

record LP1 =
  lp1_bn :: ExpSmoother
  lp1_a1 :: ExpSmoother
  lp1_x1 :: sample
  lp1_y1 :: sample

definition LP1_assign ::
  "(ExpSmoother \<Rightarrow> sample \<Rightarrow> ExpSmoother) \<Rightarrow> LP1 \<Rightarrow> sample \<Rightarrow> LP1" where
  "LP1_assign smoother_set f cutoffNormalized =
     (let k = onepole_k cutoffNormalized;
          a0 = onepole_a0 cutoffNormalized
      in f\<lparr>lp1_bn := smoother_set (lp1_bn f) (Fin 1 / a0),
           lp1_a1 := smoother_set (lp1_a1 f) ((k - Fin 1) / a0)\<rparr>)"

definition LP1_reset :: "LP1 \<Rightarrow> sample \<Rightarrow> LP1" where
  "LP1_reset f cutoffNormalized =
     LP1_assign ExpSmoother_reset (f\<lparr>lp1_x1 := Fin 0, lp1_y1 := Fin 0\<rparr>) cutoffNormalized"

definition LP1_push :: "LP1 \<Rightarrow> sample \<Rightarrow> LP1" where
  "LP1_push f cutoffNormalized = LP1_assign ExpSmoother_push f cutoffNormalized"

record HP1 =
  hp1_b0 :: ExpSmoother
  hp1_a1 :: ExpSmoother
  hp1_x1 :: sample
  hp1_y1 :: sample

definition HP1_assign ::
  "(ExpSmoother \<Rightarrow> sample \<Rightarrow> ExpSmoother) \<Rightarrow> HP1 \<Rightarrow> sample \<Rightarrow> HP1" where
  "HP1_assign smoother_set f cutoffNormalized =
     (let k = onepole_k cutoffNormalized;
          a0 = onepole_a0 cutoffNormalized
      in f\<lparr>hp1_b0 := smoother_set (hp1_b0 f) (k / a0),
           hp1_a1 := smoother_set (hp1_a1 f) ((Fin 1 - k) / a0)\<rparr>)"

definition HP1_reset :: "HP1 \<Rightarrow> sample \<Rightarrow> HP1" where
  "HP1_reset f cutoffNormalized =
     HP1_assign ExpSmoother_reset (f\<lparr>hp1_x1 := Fin 0, hp1_y1 := Fin 0\<rparr>) cutoffNormalized"

definition HP1_push :: "HP1 \<Rightarrow> sample \<Rightarrow> HP1" where
  "HP1_push f cutoffNormalized = HP1_assign ExpSmoother_push f cutoffNormalized"

record AP1 =
  ap1_a :: ExpSmoother
  ap1_x1 :: sample
  ap1_y1 :: sample

definition AP1_assign ::
  "(ExpSmoother \<Rightarrow> sample \<Rightarrow> ExpSmoother) \<Rightarrow> AP1 \<Rightarrow> sample \<Rightarrow> AP1" where
  "AP1_assign smoother_set f cutoffNormalized =
     (let k = onepole_k cutoffNormalized
      in f\<lparr>ap1_a := smoother_set (ap1_a f) ((k - Fin 1) / (k + Fin 1))\<rparr>)"

definition AP1_reset :: "AP1 \<Rightarrow> sample \<Rightarrow> AP1" where
  "AP1_reset f cutoffNormalized =
     AP1_assign ExpSmoother_reset (f\<lparr>ap1_x1 := Fin 0, ap1_y1 := Fin 0\<rparr>) cutoffNormalized"

definition AP1_push :: "AP1 \<Rightarrow> sample \<Rightarrow> AP1" where
  "AP1_push f cutoffNormalized = AP1_assign ExpSmoother_push f cutoffNormalized"

text \<open>
  The divisors of the divisions the three macros evaluate, in the order of
  evaluation: the tangent, and \<open>a0\<close> twice for \<open>LP1\<close> and \<open>HP1\<close>, \<open>k + 1\<close> for
  \<open>AP1\<close>.
\<close>

definition LP1_divisors :: "sample \<Rightarrow> sample list" where
  "LP1_divisors cutoffNormalized =
     [onepole_tan cutoffNormalized, onepole_a0 cutoffNormalized, onepole_a0 cutoffNormalized]"

definition HP1_divisors :: "sample \<Rightarrow> sample list" where
  "HP1_divisors cutoffNormalized =
     [onepole_tan cutoffNormalized, onepole_a0 cutoffNormalized, onepole_a0 cutoffNormalized]"

definition AP1_divisors :: "sample \<Rightarrow> sample list" where
  "AP1_divisors cutoffNormalized =
     [onepole_tan cutoffNormalized, onepole_k cutoffNormalized + Fin 1]"

text \<open>
  The delay line of \<open>filter.hpp\<close>, a second class template of the name \<open>Delay\<close>;
  \<open>reset\<close> fills the buffer with zeros and keeps its size and the write pointer.
\<close>

record GrowlSynth_Delay =
  gdelay_wptr :: int
  gdelay_buf :: "sample list"

definition GrowlSynth_Delay_reset :: "GrowlSynth_Delay \<Rightarrow> GrowlSynth_Delay" where
  "GrowlSynth_Delay_reset d = d\<lparr>gdelay_buf := replicate (length (gdelay_buf d)) (Fin 0)\<rparr>"

record LPComb =
  lpcomb_lp :: sample
  lpcomb_hp :: sample
  lpcomb_delay :: GrowlSynth_Delay

text \<open>\<open>LPComb::reset\<close> takes the four arguments of \<open>process\<close> and reads none of them.\<close>

definition LPComb_reset :: "LPComb \<Rightarrow> sample \<Rightarrow> sample \<Rightarrow> sample \<Rightarrow> sample \<Rightarrow> LPComb" where
  "LPComb_reset c combPeriodSamples feedback lowpassCut highpassCut =
     c\<lparr>lpcomb_lp := Fin 0, lpcomb_hp := Fin 0,
       lpcomb_delay := GrowlSynth_Delay_reset (lpcomb_delay c)\<rparr>"

text \<open>
  \<open>NoiseFormant\<close>: the arrays have \<open>nBandpass = 5\<close> elements. \<open>reset\<close> sets the
  smoother \<open>bandGain[idx]\<close> to the constant \<open>bandpassGain[idx]\<close> for every index and
  leaves the other members.
\<close>

record NoiseFormant =
  nf_bandpassCut :: "sample list"
  nf_bandpassQ :: "sample list"
  nf_bandpass :: "SVF list"
  nf_bandGain :: "ExpSmoother list"
  nf_lowpass :: SVF

definition NoiseFormant_bandpassGain :: "sample list" where
  "NoiseFormant_bandpassGain = [Fin 1, Fin 0.5623, Fin 0.3162, Fin 1, Fin 0.3162]"

definition NoiseFormant_reset :: "NoiseFormant \<Rightarrow> NoiseFormant" where
  "NoiseFormant_reset f =
     f\<lparr>nf_bandGain :=
         map (\<lambda>idx. ExpSmoother_reset (nf_bandGain f ! idx) (NoiseFormant_bandpassGain ! idx))
           [0..<length (nf_bandGain f)]\<rparr>"

record ImmediateRateLimiter =
  limiter_value :: sample

definition ImmediateRateLimiter_reset ::
  "ImmediateRateLimiter \<Rightarrow> sample \<Rightarrow> ImmediateRateLimiter" where
  "ImmediateRateLimiter_reset r resetValue = r\<lparr>limiter_value := resetValue\<rparr>"

text \<open>\<open>ModCombScaler\<close>: seven arrays of \<open>size\<close> elements, which \<open>reset\<close> fills.\<close>

record ModCombScaler =
  scaler_lowpassCut :: "sample list"
  scaler_highpassCut :: "sample list"
  scaler_allpassCut :: "sample list"
  scaler_allpassQ :: "sample list"
  scaler_combSamples :: "sample list"
  scaler_combFeedbaackGain :: "sample list"
  scaler_jitter :: "sample list"

definition fill :: "sample list \<Rightarrow> sample \<Rightarrow> sample list" where
  "fill xs v = replicate (length xs) v"

definition ModCombScaler_reset :: "ModCombScaler \<Rightarrow> ModCombScaler" where
  "ModCombScaler_reset s =
     s\<lparr>scaler_lowpassCut := fill (scaler_lowpassCut s) (Fin 1),
       scaler_highpassCut := fill (scaler_highpassCut s) (Fin 1),
       scaler_allpassCut := fill (scaler_allpassCut s) (Fin 1),
       scaler_allpassQ := fill (scaler_allpassQ s) (Fin 1),
       scaler_combFeedbaackGain := fill (scaler_combFeedbaackGain s) (Fin 1),
       scaler_combSamples := fill (scaler_combSamples s) (Fin 1),
       scaler_jitter := fill (scaler_jitter s) (Fin 0)\<rparr>"

text \<open>
  \<open>ModComb\<close>. \<open>ModComb_reset\<close> is the expansion
  \<open>ASSIGN_MOD_COMB_PARAMETERS(reset, resetDSP(...))\<close>: every member
  with a \<open>reset\<close> of one argument is reset to its argument, then \<open>resetDSP\<close> runs.
  The parameters the source names with a trailing underscore are written without
  it.
\<close>

record ModComb =
  modcomb_fbSig :: sample
  modcomb_allpassCut :: "ExpSmoother list"
  modcomb_allpassMod :: ExpSmoother
  modcomb_allpassQ :: ExpSmoother
  modcomb_lossThreshold :: ExpSmoother
  modcomb_timeSamples :: ExpSmoother
  modcomb_feedbackGain :: ExpSmoother
  modcomb_timeMod :: ExpSmoother
  modcomb_timeRate :: ExpSmoother
  modcomb_jitterTime :: ExpSmoother
  modcomb_timeLimiter :: ImmediateRateLimiter
  modcomb_lowpass :: LP1
  modcomb_highpass :: HP1
  modcomb_allpass :: "SVF list"
  modcomb_delay :: GrowlSynth_Delay
  modcomb_jitterDelay :: GrowlSynth_Delay

definition ModComb_resetDSP :: "ModComb \<Rightarrow> sample \<Rightarrow> ModComb" where
  "ModComb_resetDSP m delayTimeSamples =
     m\<lparr>modcomb_fbSig := Fin 0,
       modcomb_timeLimiter := ImmediateRateLimiter_reset (modcomb_timeLimiter m) delayTimeSamples,
       modcomb_allpass := map SVF_reset (modcomb_allpass m),
       modcomb_delay := GrowlSynth_Delay_reset (modcomb_delay m),
       modcomb_jitterDelay := GrowlSynth_Delay_reset (modcomb_jitterDelay m)\<rparr>"

definition ModComb_reset ::
  "ModComb \<Rightarrow> sample \<Rightarrow> sample \<Rightarrow> sample \<Rightarrow> sample \<Rightarrow> sample \<Rightarrow> sample \<Rightarrow> sample
     \<Rightarrow> sample \<Rightarrow> sample \<Rightarrow> sample \<Rightarrow> sample \<Rightarrow> ModComb" where
  "ModComb_reset m lowpassCutoffNormalized highpassCutoffNormalized allpassCutoffNormalized
     allpassMod allpassQ lossThreshold delayTimeSamples feedbackGain delayTimeMod
     delayTimeSlewRate jitterTimeSamples =
     ModComb_resetDSP
       (m\<lparr>modcomb_lowpass := LP1_reset (modcomb_lowpass m) lowpassCutoffNormalized,
          modcomb_highpass := HP1_reset (modcomb_highpass m) highpassCutoffNormalized,
          modcomb_allpassCut :=
            map (\<lambda>x. ExpSmoother_reset x allpassCutoffNormalized) (modcomb_allpassCut m),
          modcomb_allpassMod := ExpSmoother_reset (modcomb_allpassMod m) allpassMod,
          modcomb_allpassQ := ExpSmoother_reset (modcomb_allpassQ m) allpassQ,
          modcomb_lossThreshold := ExpSmoother_reset (modcomb_lossThreshold m) lossThreshold,
          modcomb_timeSamples := ExpSmoother_reset (modcomb_timeSamples m) delayTimeSamples,
          modcomb_feedbackGain := ExpSmoother_reset (modcomb_feedbackGain m) feedbackGain,
          modcomb_timeMod := ExpSmoother_reset (modcomb_timeMod m) delayTimeMod,
          modcomb_timeRate := ExpSmoother_reset (modcomb_timeRate m) delayTimeSlewRate,
          modcomb_jitterTime := ExpSmoother_reset (modcomb_jitterTime m) jitterTimeSamples\<rparr>)
       delayTimeSamples"

section \<open>The FIR downsampler of the source part \<open>unnamed/part_000\<close>\<close>

text \<open>
  \<open>FirDownSampler\<close> holds \<open>Fir::upfold\<close> rows of \<open>Fir::bufferSize\<close> samples;
  \<open>buf.fill({})\<close> sets every row to a value-initialised row, all zeros.
\<close>

record FirDownSampler =
  fds_buf :: "sample list list"

definition FirDownSampler_reset :: "FirDownSampler \<Rightarrow> FirDownSampler" where
  "FirDownSampler_reset d =
     d\<lparr>fds_buf := map (\<lambda>row. replicate (length row) (Fin 0)) (fds_buf d)\<rparr>"

section \<open>Reset of the voices and of the core in \<open>dspcore.cpp\<close>\<close>

text \<open>
  The remaining members of a voice, for which the field \<open>note_voice\<close> of \<open>Note\<close>
  stands, as \<open>Note::setup\<close> and \<open>Note::reset\<close> use them: the arrays \<open>modulation\<close>
  and \<open>feedback\<close>, the per-oscillator envelopes, the LFOs and the oscillators. The
  oscillator class is not among the sources: its type is arbitrary and its \<open>setup\<close>
  and \<open>reset\<close> are parameters.
\<close>

record 'o Voice =
  voice_noteHz :: sample
  voice_modulation :: "sample list"
  voice_feedback :: "sample list"
  voice_envelope :: "ADSREnvelope list"
  voice_lfo :: "EasyLfo list"
  voice_oscillator :: "'o list"

definition Note_setup ::
  "(sample \<Rightarrow> 'o \<Rightarrow> 'o) \<Rightarrow> 'o Voice Note \<Rightarrow> sample \<Rightarrow> 'o Voice Note" where
  "Note_setup oscillator_setup n sampleRate =
     n\<lparr>note_voice :=
         (note_voice n)\<lparr>voice_oscillator :=
            map (oscillator_setup sampleRate) (voice_oscillator (note_voice n))\<rparr>\<rparr>"

definition Note_reset :: "('o \<Rightarrow> 'o) \<Rightarrow> 'o Voice Note \<Rightarrow> 'o Voice Note" where
  "Note_reset oscillator_reset n =
     (let n1 = Note_rest_fn n;
          v = note_voice n1
      in n1\<lparr>note_gainEnvelope := ADSREnvelope_reset (note_gainEnvelope n1),
            note_voice :=
              v\<lparr>voice_modulation := fill (voice_modulation v) (Fin 0),
                voice_feedback := fill (voice_feedback v) (Fin 0),
                voice_envelope := map ADSREnvelope_reset (voice_envelope v),
                voice_lfo := map EasyLfo_reset (voice_lfo v),
                voice_oscillator := map oscillator_reset (voice_oscillator v)\<rparr>\<rparr>)"

text \<open>
  \<open>DSPCore::reset\<close> and \<open>DSPCore::updateSampleRate\<close>. The declaration of \<open>DSPCore\<close>
  (\<open>dspcore.hpp\<close>), the parameter store, \<open>NoteProcessInfo\<close>, the downsampler,
  \<open>SmootherCommon\<close> and \<open>EMAFilter::cutoffToP\<close> are not among the sources. The
  record \<open>DSPCore\<close> holds the members the two functions read and assign; the static
  members of \<open>SmootherCommon<float>\<close> are its field \<open>core_smootherCommon\<close>. The
  types of \<open>info\<close>, of a downsampler and of the static members are arbitrary. The
  values read from the parameter store are the record \<open>Parameters\<close>, which \<open>reset\<close>
  does not change. The two smoothers are \<open>ExpSmoother\<close>, and \<open>dcHighpass\<close> is taken
  as two \<open>EMAHighpass\<close> of \<open>lfo.hpp\<close>, whose \<open>reset()\<close> and \<open>process(input, kp)\<close>
  are the calls made on its elements. The functions that are not among the sources
  are the fields of the record \<open>Externals\<close>.
\<close>

record Parameters =
  param_oversampling :: int
  param_parameterSmoothingSecond :: sample
  param_nVoice :: nat
  param_gain :: sample
  param_dcHighpassCutoffHz :: sample
  param_dcHighpassEnable :: int

record ('o, 'i, 'd, 'g) DSPCore =
  core_param :: Parameters
  core_sampleRate :: sample
  core_upRate :: sample
  core_smootherCommon :: 'g
  core_info :: 'i
  core_notes :: "'o Voice Note list"
  core_nVoice :: nat
  core_interpMasterGain :: ExpSmoother
  core_dcHighpassCutoffKp :: ExpSmoother
  core_dcHighpassEnable :: bool
  core_dcHighpass :: "EMAHighpass list"
  core_downSampler :: "'d list"
  core_transitionBuffer :: "(sample \<times> sample) list"
  core_isTransitioning :: bool
  core_trIndex :: nat
  core_trStop :: nat

record ('o, 'i, 'd, 'g) Externals =
  oscillator_setup :: "sample \<Rightarrow> 'o \<Rightarrow> 'o"
  oscillator_reset :: "'o \<Rightarrow> 'o"
  info_reset :: "sample \<Rightarrow> Parameters \<Rightarrow> 'i \<Rightarrow> 'i"
  downSampler_fold :: nat
  downSampler_reset :: "'d \<Rightarrow> 'd"
  setSampleRate :: "sample \<Rightarrow> 'g \<Rightarrow> 'g"
  setTime :: "sample \<Rightarrow> 'g \<Rightarrow> 'g"
  cutoffToP :: "sample \<Rightarrow> sample \<Rightarrow> sample"

text \<open>The comparison \<open>==\<close> of two floats, which is false when one of them is NaN.\<close>

definition float_eq :: "sample \<Rightarrow> sample \<Rightarrow> bool" where
  "float_eq a b = (a \<le> b \<and> b \<le> a)"

definition DSPCore_updateSampleRate ::
  "('o, 'i, 'd, 'g) Externals \<Rightarrow> ('o, 'i, 'd, 'g) DSPCore \<Rightarrow> bool
     \<Rightarrow> ('o, 'i, 'd, 'g) DSPCore" where
  "DSPCore_updateSampleRate ext core reset =
     (let previousRate = core_upRate core;
          upRate = (if param_oversampling (core_param core) \<noteq> 0
                    then Fin (real (downSampler_fold ext)) * core_sampleRate core
                    else core_sampleRate core);
          core1 = core\<lparr>core_upRate := upRate,
                       core_smootherCommon :=
                         setTime ext (param_parameterSmoothingSecond (core_param core))
                           (setSampleRate ext upRate (core_smootherCommon core))\<rparr>
      in if \<not> reset \<and> float_eq previousRate upRate then core1
         else core1\<lparr>core_notes :=
                      map (\<lambda>note. Note_setup (oscillator_setup ext) note upRate)
                        (core_notes core1)\<rparr>)"

text \<open>
  \<open>reset\<close>, with the expansion \<open>ASSIGN_PARAMETER(reset)\<close>. A frame of the
  transition buffer is a pair of samples.
\<close>

definition DSPCore_reset ::
  "('o, 'i, 'd, 'g) Externals \<Rightarrow> ('o, 'i, 'd, 'g) DSPCore \<Rightarrow> ('o, 'i, 'd, 'g) DSPCore" where
  "DSPCore_reset ext core =
     (let core1 = DSPCore_updateSampleRate ext core True;
          upRate = core_upRate core1;
          pv = core_param core1
      in core1\<lparr>core_info := info_reset ext upRate pv (core_info core1),
               core_notes := map (Note_reset (oscillator_reset ext)) (core_notes core1),
               core_nVoice := param_nVoice pv + 1,
               core_interpMasterGain :=
                 ExpSmoother_reset (core_interpMasterGain core1) (param_gain pv),
               core_dcHighpassCutoffKp :=
                 ExpSmoother_reset (core_dcHighpassCutoffKp core1)
                   (cutoffToP ext upRate (param_dcHighpassCutoffHz pv)),
               core_dcHighpassEnable := (param_dcHighpassEnable pv \<noteq> 0),
               core_dcHighpass := map (\<lambda>x. EMAHighpass_reset x (Fin 0)) (core_dcHighpass core1),
               core_downSampler := map (downSampler_reset ext) (core_downSampler core1),
               core_transitionBuffer :=
                 map (\<lambda>frame. (Fin 0, Fin 0)) (core_transitionBuffer core1),
               core_isTransitioning := False,
               core_trIndex := 0,
               core_trStop := 0\<rparr>)"

section \<open>Reference notions and concrete states\<close>

text \<open>
  Addition of samples is associative and commutative with neutral element 0, also
  on the infinities and NaN, so that finite sums of samples are defined.
\<close>

instance sample :: comm_monoid_add
proof
  fix u v w :: sample
  show "0 + u = u"
    unfolding zero_sample_def by (cases u) simp_all
  show "u + v = v + u"
    by (cases u; cases v; simp)
  show "u + v + w = u + (v + w)"
    by (cases u; cases v; cases w; simp)
qed

text \<open>
  The plain sum of a list of samples and its alternating-sign sum, with the signs
  \<open>+, -, +, ...\<close> from the first element on.
\<close>

definition plain_sum :: "sample list \<Rightarrow> sample" where
  "plain_sum xs = (\<Sum>i<length xs. xs ! i)"

definition alternating_sum :: "sample list \<Rightarrow> sample" where
  "alternating_sum xs = (\<Sum>i<length xs. if even i then xs ! i else - (xs ! i))"

text \<open>Two chains of allpass stages, given by their tap buffers.\<close>

definition sap_example :: SerialAllpass where
  "sap_example =
     \<lparr>sap_buffer = [Fin 1, Fin 2, Fin 4], sap_delay = [], sap_lowpass = [],
      sap_highpass = [], sap_notch = [], sap_timeInSamples = []\<rparr>"

definition sap_infinite :: SerialAllpass where
  "sap_infinite =
     \<lparr>sap_buffer = [PInf, PInf], sap_delay = [], sap_lowpass = [],
      sap_highpass = [], sap_notch = [], sap_timeInSamples = []\<rparr>"

text \<open>The notch filter as its member initialisers leave it.\<close>

definition AdaptiveNotchCPZ_init :: AdaptiveNotchCPZ where
  "AdaptiveNotchCPZ_init = \<lparr>notch_alpha = Fin (- 2), notch_v1 = Fin 0, notch_v2 = Fin 0\<rparr>"

text \<open>
  An instance of the rounding \<open>fl\<close>: the overflow of binary32 under rounding to
  nearest. A finite result of magnitude at least \<open>2^128 - 2^103\<close> (the largest
  finite float plus half a unit in its last place) becomes an infinity, and every
  other result is kept as it is. On the results that binary32 represents exactly
  this is the rounding of binary32. The identity function is the instance of exact
  arithmetic.
\<close>

definition float_overflow :: "sample \<Rightarrow> sample" where
  "float_overflow x =
     (case x of
        Fin r \<Rightarrow> if 2 ^ 128 - 2 ^ 103 \<le> r then PInf
                 else if r \<le> - (2 ^ 128 - 2 ^ 103) then NInf
                 else Fin r
      | _ \<Rightarrow> x)"

text \<open>A highpass whose smoothers are all at zero.\<close>

definition SVFHighpass_init :: SVFHighpass where
  "SVFHighpass_init =
     \<lparr>svfhp_s1 = Fin 0, svfhp_s2 = Fin 0,
      svfhp_g = \<lparr>smoother_value = Fin 0, smoother_target = Fin 0\<rparr>,
      svfhp_d = \<lparr>smoother_value = Fin 0, smoother_target = Fin 0\<rparr>,
      svfhp_k = \<lparr>smoother_value = Fin 0, smoother_target = Fin 0\<rparr>\<rparr>"

text \<open>
  A voice in its release phase whose gain envelope has decayed to zero, a smoother
  step that keeps the smoother as it is, and oscillators with constant feedback
  values.
\<close>

definition note_releasing :: "unit Note" where
  "note_releasing =
     \<lparr>note_state = Note_release, note_id = 60, note_velocity = Fin 1, note_pan = Fin (1 / 2),
      note_gainEnvelope =
        \<lparr>adsr_state = ADSR_release, adsr_attackLength = 100, adsr_counter = 100,
         adsr_atkKp = Fin 1, adsr_decKp = Fin 1, adsr_relKp = Fin 1,
         adsr_smoother = \<lparr>dema_v1 = Fin 0, dema_v2 = Fin 0\<rparr>\<rparr>,
      note_voice = ()\<rparr>"

definition keep_smoother :: processKp_fn where
  "keep_smoother f input kp = (dema_v2 f, f)"

definition constant_oscillators :: "unit \<Rightarrow> (sample \<times> sample) \<times> unit" where
  "constant_oscillators v = ((Fin 1, Fin 1), v)"

text \<open>
  A voice is silent in a call of \<open>Note::process\<close> when it is at rest, or when its
  gain envelope reports \<open>isTerminated()\<close> after the envelope has been processed in
  that call.
\<close>

definition silent :: "processKp_fn \<Rightarrow> sample \<Rightarrow> 'v Note \<Rightarrow> bool" where
  "silent processKp gainSustainAmplitude n =
     (note_state n = Note_rest
      \<or> ADSREnvelope_isTerminated
           (snd (ADSREnvelope_process processKp (note_gainEnvelope n) gainSustainAmplitude)))"

text \<open>\<open>k\<close> calls of \<open>Note::process\<close> in a row: the frames returned and the final voice.\<close>

fun Note_process_times ::
  "nat \<Rightarrow> ('v Note \<Rightarrow> (sample \<times> sample) \<times> 'v Note) \<Rightarrow> 'v Note \<Rightarrow> (sample \<times> sample) list \<times> 'v Note" where
  "Note_process_times 0 process n = ([], n)"
| "Note_process_times (Suc k) process n =
     (let r = process n; rs = Note_process_times k process (snd r)
      in (fst r # fst rs, snd rs))"

text \<open>
  Two sounding voices: the first in its attack phase with gain 1/10, the second in
  its decay phase with gain 1/2.
\<close>

definition voice_attacking :: "unit Note" where
  "voice_attacking =
     \<lparr>note_state = Note_active, note_id = 60, note_velocity = Fin 1, note_pan = Fin (1 / 2),
      note_gainEnvelope =
        \<lparr>adsr_state = ADSR_attack, adsr_attackLength = 1000, adsr_counter = 10,
         adsr_atkKp = Fin 1, adsr_decKp = Fin 1, adsr_relKp = Fin 1,
         adsr_smoother = \<lparr>dema_v1 = Fin (1 / 5), dema_v2 = Fin (1 / 10)\<rparr>\<rparr>,
      note_voice = ()\<rparr>"

definition voice_decaying :: "unit Note" where
  "voice_decaying =
     \<lparr>note_state = Note_active, note_id = 64, note_velocity = Fin 1, note_pan = Fin (1 / 2),
      note_gainEnvelope =
        \<lparr>adsr_state = ADSR_decay, adsr_attackLength = 1000, adsr_counter = 1000,
         adsr_atkKp = Fin 1, adsr_decKp = Fin 1, adsr_relKp = Fin 1,
         adsr_smoother = \<lparr>dema_v1 = Fin (1 / 2), dema_v2 = Fin (1 / 2)\<rparr>\<rparr>,
      note_voice = ()\<rparr>"

text \<open>
  A delay line of capacity 8 after the samples 1, 4, 9, 16 have been written, and
  the function that writes a list of samples with one delay time.
\<close>

definition delay_example :: Delay where
  "delay_example =
     \<lparr>delay_wptr = 4,
      delay_buf = [Fin 0, Fin 1, Fin 4, Fin 9, Fin 16, Fin 0, Fin 0, Fin 0]\<rparr>"

fun Delay_feed :: "Delay \<Rightarrow> sample list \<Rightarrow> sample \<Rightarrow> Delay option" where
  "Delay_feed d [] timeInSamples = Some d"
| "Delay_feed d (x # xs) timeInSamples =
     (case Delay_process d x timeInSamples of
        None \<Rightarrow> None
      | Some r \<Rightarrow> Delay_feed (snd r) xs timeInSamples)"

text \<open>The gain of a voice as a real number, for voices of finite gain.\<close>

definition gain_value :: "'v Note \<Rightarrow> real" where
  "gain_value n = (case Note_getGain n of Fin r \<Rightarrow> r | _ \<Rightarrow> 0)"

text \<open>A sample that is NaN, an infinity, or a positive real number.\<close>

definition positive_or_NaN :: "sample \<Rightarrow> bool" where
  "positive_or_NaN y = (y = NaN \<or> y = PInf \<or> (\<exists>a. y = Fin a \<and> 0 < a))"

text \<open>
  An instance of what is not among the sources, for \<open>DSPCore::reset\<close>: an
  oscillator is a phase and a sample rate, of which \<open>setup\<close> stores the rate and
  \<open>reset\<close> zeroes the phase; \<open>info\<close> is the rate it was last reset with; a
  downsampler is a buffer that \<open>reset\<close> fills with zeros; the static members of
  \<open>SmootherCommon\<close> are the sample rate and the smoothing time.
\<close>

definition externals_example ::
  "(sample \<times> sample, sample, sample list, sample \<times> sample) Externals" where
  "externals_example =
     \<lparr>oscillator_setup = (\<lambda>sampleRate osc. (fst osc, sampleRate)),
      oscillator_reset = (\<lambda>osc. (Fin 0, snd osc)),
      info_reset = (\<lambda>upRate pv info. upRate),
      downSampler_fold = 2,
      downSampler_reset = (\<lambda>buf. fill buf (Fin 0)),
      setSampleRate = (\<lambda>rate common. (rate, snd common)),
      setTime = (\<lambda>seconds common. (fst common, seconds)),
      cutoffToP = (\<lambda>rate hz. hz / rate)\<rparr>"

text \<open>
  A sounding voice with two oscillators, a core with two such voices in the middle
  of a transition, and a fold shaper whose three members are buffers.
\<close>

definition voice_example :: "(sample \<times> sample) Voice Note" where
  "voice_example =
     \<lparr>note_state = Note_active, note_id = 64, note_velocity = Fin 1, note_pan = Fin (1 / 2),
      note_gainEnvelope =
        \<lparr>adsr_state = ADSR_decay, adsr_attackLength = 1000, adsr_counter = 1000,
         adsr_atkKp = Fin 1, adsr_decKp = Fin 1, adsr_relKp = Fin 1,
         adsr_smoother = \<lparr>dema_v1 = Fin (1 / 2), dema_v2 = Fin (1 / 2)\<rparr>\<rparr>,
      note_voice =
        \<lparr>voice_noteHz = Fin 440,
         voice_modulation = [Fin (1 / 2), Fin (1 / 4)],
         voice_feedback = [Fin (1 / 8), Fin (- 1 / 8)],
         voice_envelope =
           [\<lparr>adsr_state = ADSR_attack, adsr_attackLength = 100, adsr_counter = 10,
             adsr_atkKp = Fin 1, adsr_decKp = Fin 1, adsr_relKp = Fin 1,
             adsr_smoother = \<lparr>dema_v1 = Fin (1 / 5), dema_v2 = Fin (1 / 10)\<rparr>\<rparr>],
         voice_lfo = [\<lparr>lfo_phase = Fin (1 / 3), lfo_smoother = \<lparr>dema_v1 = Fin 1, dema_v2 = Fin 1\<rparr>\<rparr>],
         voice_oscillator = [(Fin (1 / 4), Fin 44100), (Fin (3 / 4), Fin 44100)]\<rparr>\<rparr>"

definition core_example ::
  "(sample \<times> sample, sample, sample list, sample \<times> sample) DSPCore" where
  "core_example =
     \<lparr>core_param =
        \<lparr>param_oversampling = 1, param_parameterSmoothingSecond = Fin (1 / 5),
         param_nVoice = 1, param_gain = Fin (1 / 2), param_dcHighpassCutoffHz = Fin 16,
         param_dcHighpassEnable = 1\<rparr>,
      core_sampleRate = Fin 48000,
      core_upRate = Fin 44100,
      core_smootherCommon = (Fin 44100, Fin (1 / 25)),
      core_info = Fin 44100,
      core_notes = [voice_example, voice_example],
      core_nVoice = 1,
      core_interpMasterGain = \<lparr>smoother_value = Fin 0, smoother_target = Fin 1\<rparr>,
      core_dcHighpassCutoffKp = \<lparr>smoother_value = Fin 0, smoother_target = Fin 1\<rparr>,
      core_dcHighpassEnable = False,
      core_dcHighpass = [\<lparr>emahp_v1 = Fin 1\<rparr>, \<lparr>emahp_v1 = Fin 2\<rparr>],
      core_downSampler = [[Fin 1, Fin 2], [Fin 3, Fin 4]],
      core_transitionBuffer = [(Fin 1, Fin 1), (Fin 2, Fin 2)],
      core_isTransitioning = True,
      core_trIndex = 1,
      core_trStop = 0\<rparr>"

definition foldshaper_example :: "(sample list, sample list, sample list) FoldShaper" where
  "foldshaper_example =
     \<lparr>fs_gain = Fin 2, fs_multiply = Fin 1, fs_hardclip = True,
      fs_upSampler = [Fin 1, Fin 2], fs_lowpass = [Fin 3], fs_halfbandIir = [Fin 4, Fin 5]\<rparr>"

section \<open>Properties\<close>

subsection \<open>Reset\<close>

lemma ExpSmoother_reset_twice:
  "ExpSmoother_reset (ExpSmoother_reset s v) v = ExpSmoother_reset s v"
  by (simp add: ExpSmoother_reset_def)

lemma fill_twice: "fill (fill xs v) v = fill xs v"
  by (simp add: fill_def)

lemma LP1_reset_twice: "LP1_reset (LP1_reset f c) c = LP1_reset f c"
  by (simp add: LP1_reset_def LP1_assign_def ExpSmoother_reset_def Let_def)

lemma HP1_reset_twice: "HP1_reset (HP1_reset f c) c = HP1_reset f c"
  by (simp add: HP1_reset_def HP1_assign_def ExpSmoother_reset_def Let_def)

lemma AP1_reset_twice: "AP1_reset (AP1_reset f c) c = AP1_reset f c"
  by (simp add: AP1_reset_def AP1_assign_def ExpSmoother_reset_def Let_def)

lemma GrowlSynth_Delay_reset_twice:
  "GrowlSynth_Delay_reset (GrowlSynth_Delay_reset d) = GrowlSynth_Delay_reset d"
  by (simp add: GrowlSynth_Delay_reset_def)

lemma LPComb_reset_twice:
  "LPComb_reset (LPComb_reset c p fb lc hc) p fb lc hc = LPComb_reset c p fb lc hc"
  by (simp add: LPComb_reset_def GrowlSynth_Delay_reset_twice)

lemma NoiseFormant_reset_twice:
  "NoiseFormant_reset (NoiseFormant_reset f) = NoiseFormant_reset f"
  by (simp add: NoiseFormant_reset_def ExpSmoother_reset_twice)

lemma ImmediateRateLimiter_reset_twice:
  "ImmediateRateLimiter_reset (ImmediateRateLimiter_reset r v) v = ImmediateRateLimiter_reset r v"
  by (simp add: ImmediateRateLimiter_reset_def)

lemma ModCombScaler_reset_twice:
  "ModCombScaler_reset (ModCombScaler_reset s) = ModCombScaler_reset s"
  by (simp add: ModCombScaler_reset_def fill_twice)

lemma SVF_reset_twice: "SVF_reset (SVF_reset f) = SVF_reset f"
  by (simp add: SVF_reset_def)

lemma ModComb_reset_twice:
  "ModComb_reset (ModComb_reset m lc hc ac am aq lt dt fg tm sr jt) lc hc ac am aq lt dt fg tm sr jt
     = ModComb_reset m lc hc ac am aq lt dt fg tm sr jt"
  by (simp add: ModComb_reset_def ModComb_resetDSP_def LP1_reset_twice HP1_reset_twice
      ExpSmoother_reset_twice ImmediateRateLimiter_reset_twice SVF_reset_twice
      GrowlSynth_Delay_reset_twice comp_def)

lemma FirDownSampler_reset_twice:
  "FirDownSampler_reset (FirDownSampler_reset d) = FirDownSampler_reset d"
  by (simp add: FirDownSampler_reset_def comp_def)

lemma FoldShaper_reset_twice:
  assumes "ru (ru (fs_upSampler fs)) = ru (fs_upSampler fs)"
    and "rl (rl (fs_lowpass fs)) = rl (fs_lowpass fs)"
    and "rh (rh (fs_halfbandIir fs)) = rh (fs_halfbandIir fs)"
  shows "FoldShaper_reset ru rl rh (FoldShaper_reset ru rl rh fs) = FoldShaper_reset ru rl rh fs"
  using assms by (simp add: FoldShaper_reset_def)

lemma ADSREnvelope_reset_twice:
  "ADSREnvelope_reset (ADSREnvelope_reset e) = ADSREnvelope_reset e"
  by (simp add: ADSREnvelope_reset_def DoubleEMAFilter_reset_def)

lemma EasyLfo_reset_twice: "EasyLfo_reset (EasyLfo_reset l) = EasyLfo_reset l"
  by (simp add: EasyLfo_reset_def DoubleEMAFilter_reset_def)

lemma EMAHighpass_reset_twice:
  "EMAHighpass_reset (EMAHighpass_reset f v) v = EMAHighpass_reset f v"
  by (simp add: EMAHighpass_reset_def)

lemma Note_reset_twice:
  assumes "\<forall>osc \<in> set (voice_oscillator (note_voice n)). R (R osc) = R osc"
  shows "Note_reset R (Note_reset R n) = Note_reset R n"
  using assms
  by (simp add: Note_reset_def Note_rest_fn_def Let_def fill_twice ADSREnvelope_reset_twice
      EasyLfo_reset_twice comp_def)

lemma Note_reset_setup_twice:
  assumes "\<forall>osc \<in> set (voice_oscillator (note_voice n)). R (S u (R (S u osc))) = R (S u osc)"
  shows "Note_reset R (Note_setup S (Note_reset R (Note_setup S n u)) u)
         = Note_reset R (Note_setup S n u)"
  using assms
  by (simp add: Note_reset_def Note_setup_def Note_rest_fn_def Let_def fill_twice
      ADSREnvelope_reset_twice EasyLfo_reset_twice comp_def)

lemma DSPCore_reset_twice:
  assumes osc: "\<forall>r osc. oscillator_reset ext (oscillator_setup ext r
                   (oscillator_reset ext (oscillator_setup ext r osc)))
                 = oscillator_reset ext (oscillator_setup ext r osc)"
    and info: "\<forall>r p i. info_reset ext r p (info_reset ext r p i) = info_reset ext r p i"
    and down: "\<forall>d. downSampler_reset ext (downSampler_reset ext d) = downSampler_reset ext d"
    and common: "\<forall>r t g. setTime ext t (setSampleRate ext r (setTime ext t (setSampleRate ext r g)))
                 = setTime ext t (setSampleRate ext r g)"
  shows "DSPCore_reset ext (DSPCore_reset ext core) = DSPCore_reset ext core"
proof -
  have voices: "Note_reset (oscillator_reset ext) (Note_setup (oscillator_setup ext)
                 (Note_reset (oscillator_reset ext) (Note_setup (oscillator_setup ext) n u)) u)
               = Note_reset (oscillator_reset ext) (Note_setup (oscillator_setup ext) n u)" for n u
    by (rule Note_reset_setup_twice) (simp add: osc)
  show ?thesis
    by (simp add: DSPCore_reset_def DSPCore_updateSampleRate_def Let_def comp_def voices info down
        common ExpSmoother_reset_twice EMAHighpass_reset_twice)
qed

text \<open>
  C9: calling \<open>reset()\<close> twice in a row leaves a component in exactly the state one
  call leaves it in. This holds from every state, for \<open>Delay::reset\<close>,
  \<open>AdaptiveNotchCPZ::reset\<close>, \<open>ExpDSREnvelope::reset\<close> and \<open>ADSREnvelope::reset\<close>,
  and for every other class of the sources that has a \<open>reset\<close>: those of
  \<open>delay.hpp\<close>, \<open>lfo.hpp\<close> and \<open>filter.hpp\<close>, \<open>FirDownSampler\<close>, \<open>FoldShaper\<close>,
  \<open>Note\<close> and \<open>DSPCore\<close>. A \<open>reset\<close> with arguments is called twice with the same
  arguments. Three of them call a \<open>reset\<close> that is not among the sources, and are
  idempotent when that one is: \<open>Note::reset\<close> that of its oscillators,
  \<open>FoldShaper::reset\<close> those of its three members, and \<open>DSPCore::reset\<close>, which
  sets up and then resets the oscillators, those of the oscillators, of \<open>info\<close>
  and of the downsamplers, and the two setters of \<open>SmootherCommon\<close>.
\<close>

theorem reset_idempotent:
  "Delay_reset (Delay_reset d) = Delay_reset d
   \<and> AdaptiveNotchCPZ_reset (AdaptiveNotchCPZ_reset n) = AdaptiveNotchCPZ_reset n
   \<and> ExpDSREnvelope_reset (ExpDSREnvelope_reset dsr) = ExpDSREnvelope_reset dsr
   \<and> ADSREnvelope_reset (ADSREnvelope_reset adsr) = ADSREnvelope_reset adsr
   \<and> ExpDecay_reset (ExpDecay_reset ed) = ExpDecay_reset ed
   \<and> TransitionReleaseSmoother_reset (TransitionReleaseSmoother_reset trs)
       = TransitionReleaseSmoother_reset trs
   \<and> ExpADEnvelope_reset (ExpADEnvelope_reset ad) = ExpADEnvelope_reset ad
   \<and> Highpass2_reset (Highpass2_reset hp) = Highpass2_reset hp
   \<and> EmaHighShelf_reset (EmaHighShelf_reset hs) = EmaHighShelf_reset hs
   \<and> EmaLowShelf_reset (EmaLowShelf_reset ls) = EmaLowShelf_reset ls
   \<and> SerialAllpass_reset (SerialAllpass_reset sap) = SerialAllpass_reset sap
   \<and> HalfClosedNoise_reset (HalfClosedNoise_reset hcn) = HalfClosedNoise_reset hcn
   \<and> EMAHighpass_reset (EMAHighpass_reset emahp v) v = EMAHighpass_reset emahp v
   \<and> EasyLfo_reset (EasyLfo_reset lfo) = EasyLfo_reset lfo
   \<and> SVF_reset (SVF_reset svf) = SVF_reset svf
   \<and> SVFHighpass_reset (SVFHighpass_reset svfhp f Q) f Q = SVFHighpass_reset svfhp f Q
   \<and> LP1_reset (LP1_reset lp1 cutoff) cutoff = LP1_reset lp1 cutoff
   \<and> HP1_reset (HP1_reset hp1 cutoff) cutoff = HP1_reset hp1 cutoff
   \<and> AP1_reset (AP1_reset ap1 cutoff) cutoff = AP1_reset ap1 cutoff
   \<and> GrowlSynth_Delay_reset (GrowlSynth_Delay_reset gdelay) = GrowlSynth_Delay_reset gdelay
   \<and> LPComb_reset (LPComb_reset lpcomb combPeriodSamples feedback lowpassCut highpassCut)
         combPeriodSamples feedback lowpassCut highpassCut
       = LPComb_reset lpcomb combPeriodSamples feedback lowpassCut highpassCut
   \<and> NoiseFormant_reset (NoiseFormant_reset formant) = NoiseFormant_reset formant
   \<and> ImmediateRateLimiter_reset (ImmediateRateLimiter_reset limiter resetValue) resetValue
       = ImmediateRateLimiter_reset limiter resetValue
   \<and> ModCombScaler_reset (ModCombScaler_reset scaler) = ModCombScaler_reset scaler
   \<and> ModComb_reset
         (ModComb_reset modcomb lowpassCutoffNormalized highpassCutoffNormalized
            allpassCutoffNormalized allpassMod allpassQ lossThreshold delayTimeSamples
            feedbackGain delayTimeMod delayTimeSlewRate jitterTimeSamples)
         lowpassCutoffNormalized highpassCutoffNormalized allpassCutoffNormalized allpassMod
         allpassQ lossThreshold delayTimeSamples feedbackGain delayTimeMod delayTimeSlewRate
         jitterTimeSamples
       = ModComb_reset modcomb lowpassCutoffNormalized highpassCutoffNormalized
           allpassCutoffNormalized allpassMod allpassQ lossThreshold delayTimeSamples
           feedbackGain delayTimeMod delayTimeSlewRate jitterTimeSamples
   \<and> FirDownSampler_reset (FirDownSampler_reset downsampler) = FirDownSampler_reset downsampler
   \<and> ((\<forall>osc \<in> set (voice_oscillator (note_voice voice)).
          oscillatorReset (oscillatorReset osc) = oscillatorReset osc) \<longrightarrow>
        Note_reset oscillatorReset (Note_reset oscillatorReset voice)
          = Note_reset oscillatorReset voice)
   \<and> (upSamplerReset (upSamplerReset (fs_upSampler shaper)) = upSamplerReset (fs_upSampler shaper)
        \<and> lowpassReset (lowpassReset (fs_lowpass shaper)) = lowpassReset (fs_lowpass shaper)
        \<and> halfbandReset (halfbandReset (fs_halfbandIir shaper))
            = halfbandReset (fs_halfbandIir shaper) \<longrightarrow>
        FoldShaper_reset upSamplerReset lowpassReset halfbandReset
            (FoldShaper_reset upSamplerReset lowpassReset halfbandReset shaper)
          = FoldShaper_reset upSamplerReset lowpassReset halfbandReset shaper)
   \<and> ((\<forall>rate osc. oscillator_reset ext (oscillator_setup ext rate
                      (oscillator_reset ext (oscillator_setup ext rate osc)))
                    = oscillator_reset ext (oscillator_setup ext rate osc))
        \<and> (\<forall>rate pv info. info_reset ext rate pv (info_reset ext rate pv info)
                            = info_reset ext rate pv info)
        \<and> (\<forall>down. downSampler_reset ext (downSampler_reset ext down) = downSampler_reset ext down)
        \<and> (\<forall>rate seconds common.
              setTime ext seconds (setSampleRate ext rate
                (setTime ext seconds (setSampleRate ext rate common)))
              = setTime ext seconds (setSampleRate ext rate common)) \<longrightarrow>
        DSPCore_reset ext (DSPCore_reset ext core) = DSPCore_reset ext core)"
proof -
  have headers:
    "Delay_reset (Delay_reset d) = Delay_reset d
     \<and> AdaptiveNotchCPZ_reset (AdaptiveNotchCPZ_reset n) = AdaptiveNotchCPZ_reset n
     \<and> ExpDSREnvelope_reset (ExpDSREnvelope_reset dsr) = ExpDSREnvelope_reset dsr
     \<and> ADSREnvelope_reset (ADSREnvelope_reset adsr) = ADSREnvelope_reset adsr
     \<and> ExpDecay_reset (ExpDecay_reset ed) = ExpDecay_reset ed
     \<and> TransitionReleaseSmoother_reset (TransitionReleaseSmoother_reset trs)
         = TransitionReleaseSmoother_reset trs
     \<and> ExpADEnvelope_reset (ExpADEnvelope_reset ad) = ExpADEnvelope_reset ad
     \<and> Highpass2_reset (Highpass2_reset hp) = Highpass2_reset hp
     \<and> EmaHighShelf_reset (EmaHighShelf_reset hs) = EmaHighShelf_reset hs
     \<and> EmaLowShelf_reset (EmaLowShelf_reset ls) = EmaLowShelf_reset ls
     \<and> SerialAllpass_reset (SerialAllpass_reset sap) = SerialAllpass_reset sap
     \<and> HalfClosedNoise_reset (HalfClosedNoise_reset hcn) = HalfClosedNoise_reset hcn
     \<and> EMAHighpass_reset (EMAHighpass_reset emahp v) v = EMAHighpass_reset emahp v
     \<and> EasyLfo_reset (EasyLfo_reset lfo) = EasyLfo_reset lfo
     \<and> SVF_reset (SVF_reset svf) = SVF_reset svf
     \<and> SVFHighpass_reset (SVFHighpass_reset svfhp f Q) f Q = SVFHighpass_reset svfhp f Q"
    by (simp add: Delay_reset_def AdaptiveNotchCPZ_reset_def ExpDSREnvelope_reset_def
        ADSREnvelope_reset_def DoubleEMAFilter_reset_def ExpDecay_reset_def
        TransitionReleaseSmoother_reset_def ExpADEnvelope_reset_def Highpass2_reset_def
        EmaHighShelf_reset_def EmaLowShelf_reset_def SerialAllpass_reset_def
        HalfClosedNoise_reset_def EMAHighpass_reset_def EasyLfo_reset_def SVF_reset_def
        SVFHighpass_reset_def SVFHighpass_assign_def ExpSmoother_reset_def Let_def comp_def)
  have voice_reset:
    "(\<forall>osc \<in> set (voice_oscillator (note_voice voice)).
          oscillatorReset (oscillatorReset osc) = oscillatorReset osc) \<longrightarrow>
        Note_reset oscillatorReset (Note_reset oscillatorReset voice)
          = Note_reset oscillatorReset voice"
    using Note_reset_twice by blast
  have shaper_reset:
    "upSamplerReset (upSamplerReset (fs_upSampler shaper)) = upSamplerReset (fs_upSampler shaper)
        \<and> lowpassReset (lowpassReset (fs_lowpass shaper)) = lowpassReset (fs_lowpass shaper)
        \<and> halfbandReset (halfbandReset (fs_halfbandIir shaper))
            = halfbandReset (fs_halfbandIir shaper) \<longrightarrow>
        FoldShaper_reset upSamplerReset lowpassReset halfbandReset
            (FoldShaper_reset upSamplerReset lowpassReset halfbandReset shaper)
          = FoldShaper_reset upSamplerReset lowpassReset halfbandReset shaper"
    using FoldShaper_reset_twice by blast
  have core_reset:
    "(\<forall>rate osc. oscillator_reset ext (oscillator_setup ext rate
                      (oscillator_reset ext (oscillator_setup ext rate osc)))
                    = oscillator_reset ext (oscillator_setup ext rate osc))
        \<and> (\<forall>rate pv info. info_reset ext rate pv (info_reset ext rate pv info)
                            = info_reset ext rate pv info)
        \<and> (\<forall>down. downSampler_reset ext (downSampler_reset ext down) = downSampler_reset ext down)
        \<and> (\<forall>rate seconds common.
              setTime ext seconds (setSampleRate ext rate
                (setTime ext seconds (setSampleRate ext rate common)))
              = setTime ext seconds (setSampleRate ext rate common)) \<longrightarrow>
        DSPCore_reset ext (DSPCore_reset ext core) = DSPCore_reset ext core"
    using DSPCore_reset_twice [of ext core] by blast
  from headers voice_reset shaper_reset core_reset show ?thesis
    by (simp only: LP1_reset_twice HP1_reset_twice AP1_reset_twice GrowlSynth_Delay_reset_twice
        LPComb_reset_twice NoiseFormant_reset_twice ImmediateRateLimiter_reset_twice
        ModCombScaler_reset_twice ModComb_reset_twice FirDownSampler_reset_twice simp_thms)
qed

text \<open>
  The three resets that call into code that is not among the sources, at the
  instance \<open>externals_example\<close>: the core is reset at the rate 96000, twice the
  sample rate 48000, and the second reset changes nothing.
\<close>

theorem reset_idempotent_witness:
  "map (\<lambda>osc. oscillator_reset externals_example (oscillator_reset externals_example osc))
       (voice_oscillator (note_voice voice_example))
     = map (oscillator_reset externals_example) (voice_oscillator (note_voice voice_example))
   \<and> Note_reset (oscillator_reset externals_example)
        (Note_reset (oscillator_reset externals_example) voice_example)
       = Note_reset (oscillator_reset externals_example) voice_example
   \<and> FoldShaper_reset (\<lambda>buf. fill buf (Fin 0)) (\<lambda>buf. fill buf (Fin 0)) (\<lambda>buf. fill buf (Fin 0))
        (FoldShaper_reset (\<lambda>buf. fill buf (Fin 0)) (\<lambda>buf. fill buf (Fin 0))
           (\<lambda>buf. fill buf (Fin 0)) foldshaper_example)
       = FoldShaper_reset (\<lambda>buf. fill buf (Fin 0)) (\<lambda>buf. fill buf (Fin 0))
           (\<lambda>buf. fill buf (Fin 0)) foldshaper_example
   \<and> DSPCore_reset externals_example (DSPCore_reset externals_example core_example)
       = DSPCore_reset externals_example core_example
   \<and> core_upRate (DSPCore_reset externals_example core_example) = Fin 96000
   \<and> map note_state (core_notes (DSPCore_reset externals_example core_example))
       = [Note_rest, Note_rest]
   \<and> core_isTransitioning (DSPCore_reset externals_example core_example) = False"
  using reset_idempotent [where voice = voice_example
      and oscillatorReset = "oscillator_reset externals_example"
      and upSamplerReset = "\<lambda>buf. fill buf (Fin 0)" and lowpassReset = "\<lambda>buf. fill buf (Fin 0)"
      and halfbandReset = "\<lambda>buf. fill buf (Fin 0)" and shaper = foldshaper_example
      and ext = externals_example and core = core_example]
  by (simp add: externals_example_def fill_def DSPCore_reset_def DSPCore_updateSampleRate_def
      core_example_def Let_def Note_reset_def Note_rest_fn_def)

subsection \<open>Latency of the fold shaper\<close>

text \<open>
  C6: \<open>FoldShaper::latency()\<close> returns \<open>Fir16FoldUpSample::intDelay\<close>, which is 15,
  for every state of the shaper: the settings \<open>gain\<close>, \<open>multiply\<close> and
  \<open>hardclip\<close> and the states of the resampling stages have no part in it.
\<close>

theorem FoldShaper_latency_intDelay:
  "FoldShaper_latency fs = Fir16FoldUpSample_intDelay
   \<and> Fir16FoldUpSample_intDelay = 15
   \<and> FoldShaper_latency (fs\<lparr>fs_gain := g, fs_multiply := m, fs_hardclip := h\<rparr>)
       = FoldShaper_latency fs"
  by (simp add: FoldShaper_latency_def Fir16FoldUpSample_intDelay_def)

subsection \<open>Decay coefficients of the exponential envelopes\<close>

lemma fpow_epsilon:
  "fpow (Fin float_epsilon) (Fin 1 / Fin x)
     = (if x = 0 then Fin 0 else Fin (float_epsilon powr (1 / x)))"
  by (simp add: float_epsilon_def)

text \<open>
  C8: \<open>ExpDecay::setTime\<close> with \<open>sustain = false\<close> sets \<open>alpha\<close> to
  \<open>epsilon\<^sup>1\<^sup>/\<^sup>t\<close> for the decay time \<open>t\<close>, and \<open>ExpDSREnvelope::setTime\<close> sets
  \<open>alphaD\<close> and \<open>alphaR\<close> to \<open>epsilon\<close> to the power of the reciprocal of the decay
  and of the release time, where \<open>epsilon\<close> is the machine epsilon \<open>2\<^sup>-\<^sup>2\<^sup>3\<close> of
  \<open>float\<close>. For a finite time \<open>x\<close> other than zero the power is the real power
  \<open>epsilon\<^sup>1\<^sup>/\<^sup>x\<close>; at \<open>x = 0\<close> the exponent is infinite and the coefficient 0.
\<close>

theorem setTime_coefficients:
  "expdecay_alpha (ExpDecay_setTime e t False) = fpow (Fin float_epsilon) (Fin 1 / t)
   \<and> dsr_alphaD (ExpDSREnvelope_setTime dsr d r) = fpow (Fin float_epsilon) (Fin 1 / d)
   \<and> dsr_alphaR (ExpDSREnvelope_setTime dsr d r) = fpow (Fin float_epsilon) (Fin 1 / r)
   \<and> float_epsilon = 2 powr (- 23)
   \<and> fpow (Fin float_epsilon) (Fin 1 / Fin x)
       = (if x = 0 then Fin 0 else Fin (float_epsilon powr (1 / x)))"
  apply (simp add: ExpDecay_setTime_def ExpDSREnvelope_setTime_def fpow_epsilon)
  apply (simp add: float_epsilon_def powr_minus field_simps)
  done

subsection \<open>The safe clip\<close>

lemma safeClip_cases:
  "safeClip (Fin a) = Fin (max (- 1024) (min 1024 a))"
  "safeClip NaN = Fin 0"
  "safeClip PInf = Fin 0"
  "safeClip NInf = Fin 0"
  by (auto simp add: safeClip_def clamp_def)

lemma safeClip_range: "\<exists>r. safeClip x = Fin r \<and> - 1024 \<le> r \<and> r \<le> 1024"
  by (cases x) (auto simp add: safeClip_cases)

text \<open>
  C4: for every input, NaN and the infinities included, \<open>safeClip\<close> returns a finite
  value between -1024 and 1024: the input clamped to that range when it is finite,
  and 0 when it is not. \<open>FoldShaper::process\<close> returns the \<open>safeClip\<close> of its
  output, so it returns a finite value in that range for every input and every
  setting of \<open>gain\<close>, \<open>multiply\<close> and \<open>hardclip\<close>.
\<close>

theorem safeClip_bounded:
  "(\<exists>r. safeClip x = Fin r \<and> - 1024 \<le> r \<and> r \<le> 1024)
   \<and> safeClip (Fin a) = Fin (max (- 1024) (min 1024 a))
   \<and> safeClip NaN = Fin 0 \<and> safeClip PInf = Fin 0 \<and> safeClip NInf = Fin 0
   \<and> (\<exists>r. FoldShaper_process undefined_int fs x0 = Fin r \<and> - 1024 \<le> r \<and> r \<le> 1024)"
  using safeClip_range safeClip_cases by (simp add: FoldShaper_process_def Let_def)

subsection \<open>Arithmetic of samples\<close>

lemma isfinite_iff: "isfinite x = (\<exists>r. x = Fin r)"
  by (cases x) auto

lemma in_range_Fin:
  "(Fin lo \<le> x \<and> x \<le> Fin hi) = (\<exists>r. x = Fin r \<and> lo \<le> r \<and> r \<le> hi)"
  by (cases x) auto

lemma clamp_not_NaN:
  assumes "v \<noteq> NaN" and "lo \<le> hi"
  shows "\<exists>r. clamp v (Fin lo) (Fin hi) = Fin r \<and> lo \<le> r \<and> r \<le> hi"
  using assms by (cases v) (auto simp add: clamp_def)

lemma uminus_add: "- (a + b) = - a + - (b::sample)"
  by (cases a; cases b) simp_all

lemma uminus_uminus: "- (- a) = (a::sample)"
  by (cases a) simp_all

lemma uminus_zero: "- (0::sample) = 0"
  by (simp add: zero_sample_def)

lemma uminus_sum: "- (\<Sum>i<(n::nat). f i) = (\<Sum>i<n. - (f i :: sample))"
  by (induction n) (simp_all add: uminus_add uminus_zero)

lemma mult_sign: "x * Fin 1 = x" "x * Fin (- 1) = - x"
  by (cases x; simp)+

lemma lerp_ends:
  "lerp (Fin a) (Fin b) (Fin 0) = Fin a"
  "lerp (Fin a) (Fin b) (Fin 1) = Fin b"
  by (simp_all add: lerp_def minus_sample_def)

lemma if_swap: "(if \<not> P then a else b) = (if P then b else a)"
  by simp

lemma times_sample_commute: "a * b = b * (a :: sample)"
  by (cases a; cases b) (simp_all add: mult.commute)

lemma times_sample_assoc: "a * b * c = a * (b * (c :: sample))"
  by (cases a; cases b; cases c)
     (auto simp add: mult.assoc zero_less_mult_iff mult_less_0_iff zero_le_mult_iff
        mult_le_0_iff not_less not_le)

subsection \<open>The sum of the allpass taps\<close>

lemma plain_sum_Cons: "plain_sum (x # xs) = x + plain_sum xs"
  by (simp add: plain_sum_def sum.lessThan_Suc_shift del: sum.lessThan_Suc)

lemma alternating_sum_Cons: "alternating_sum (x # xs) = x + - alternating_sum xs"
  by (simp add: alternating_sum_def sum.lessThan_Suc_shift uminus_sum uminus_uminus if_distrib
        if_swap del: sum.lessThan_Suc cong: if_cong)

lemma accumulate_plain: "accumulate xs init = init + plain_sum xs"
  unfolding accumulate_def
proof (induction xs arbitrary: init)
  case Nil
  show ?case by (simp add: plain_sum_def)
next
  case (Cons x xs)
  show ?case by (simp add: Cons.IH plain_sum_Cons add.assoc)
qed

lemma sumAlt_loop_alternating:
  "sumAlt_loop xs acc (Fin 1) = acc + alternating_sum xs"
  "sumAlt_loop xs acc (Fin (- 1)) = acc + - alternating_sum xs"
proof (induction xs arbitrary: acc)
  case Nil
  { case 1 show ?case by (simp add: alternating_sum_def) }
  { case 2 show ?case by (simp add: alternating_sum_def uminus_zero) }
next
  case (Cons x xs)
  { case 1 show ?case
      by (simp add: Cons.IH mult_sign alternating_sum_Cons add.assoc) }
  { case 2 show ?case
      by (simp add: Cons.IH mult_sign alternating_sum_Cons add.assoc uminus_add uminus_uminus) }
qed

lemma plain_sum_example: "plain_sum [Fin 1, Fin 2, Fin 4] = Fin 7"
  by (simp add: plain_sum_def lessThan_Suc numeral_3_eq_3 zero_sample_def)

lemma alternating_sum_example: "alternating_sum [Fin 1, Fin 2, Fin 4] = Fin 3"
  by (simp add: alternating_sum_def lessThan_Suc numeral_3_eq_3 zero_sample_def)

text \<open>
  C5, as amended: for every state of the tap buffer and every \<open>altSignMix\<close>,
  \<open>SerialAllpass::sum\<close> returns \<open>lerp(S_direct, S_alt, altSignMix) / (2 * nAllpass)\<close>,
  where \<open>S_direct\<close> is the plain sum of the \<open>nAllpass\<close> buffered tap outputs and
  \<open>S_alt\<close> their alternating-sign sum. When both sums are finite, \<open>sum(0)\<close> is the
  plain sum and \<open>sum(1)\<close> the alternating-sign sum, each divided by
  \<open>2 * nAllpass\<close>.
\<close>

theorem SerialAllpass_sum_formula:
  "SerialAllpass_sum a altSignMix
     = lerp (plain_sum (sap_buffer a)) (alternating_sum (sap_buffer a)) altSignMix
         / (Fin 2 * Fin (real (length (sap_buffer a))))
   \<and> (isfinite (plain_sum (sap_buffer a)) \<and> isfinite (alternating_sum (sap_buffer a)) \<longrightarrow>
        SerialAllpass_sum a (Fin 0)
          = plain_sum (sap_buffer a) / (Fin 2 * Fin (real (length (sap_buffer a))))
        \<and> SerialAllpass_sum a (Fin 1)
          = alternating_sum (sap_buffer a) / (Fin 2 * Fin (real (length (sap_buffer a)))))"
proof -
  have eq: "SerialAllpass_sum a m
     = lerp (plain_sum (sap_buffer a)) (alternating_sum (sap_buffer a)) m
         / (Fin 2 * Fin (real (length (sap_buffer a))))" for m
    using accumulate_plain [of "sap_buffer a" "0"]
      sumAlt_loop_alternating(1) [of "sap_buffer a" "0"]
    by (simp add: SerialAllpass_sum_def Let_def zero_sample_def [symmetric])
  show ?thesis
  proof (intro conjI impI)
    show "SerialAllpass_sum a altSignMix
     = lerp (plain_sum (sap_buffer a)) (alternating_sum (sap_buffer a)) altSignMix
         / (Fin 2 * Fin (real (length (sap_buffer a))))"
      by (rule eq)
  next
    assume "isfinite (plain_sum (sap_buffer a)) \<and> isfinite (alternating_sum (sap_buffer a))"
    then obtain p q where pq:
      "plain_sum (sap_buffer a) = Fin p" "alternating_sum (sap_buffer a) = Fin q"
      by (auto simp add: isfinite_iff)
    show "SerialAllpass_sum a (Fin 0)
          = plain_sum (sap_buffer a) / (Fin 2 * Fin (real (length (sap_buffer a))))"
      by (simp only: eq pq lerp_ends)
    show "SerialAllpass_sum a (Fin 1)
          = alternating_sum (sap_buffer a) / (Fin 2 * Fin (real (length (sap_buffer a))))"
      by (simp only: eq pq lerp_ends)
  qed
qed

text \<open>The taps 1, 2, 4: the plain sum is 7, the alternating sum 3, and \<open>2 * nAllpass\<close> is 6.\<close>

theorem SerialAllpass_sum_formula_witness:
  "isfinite (plain_sum (sap_buffer sap_example))
   \<and> isfinite (alternating_sum (sap_buffer sap_example))
   \<and> SerialAllpass_sum sap_example (Fin 0) = Fin (7 / 6)
   \<and> SerialAllpass_sum sap_example (Fin 1) = Fin (1 / 2)"
  using SerialAllpass_sum_formula [of sap_example "Fin 0"]
  by (simp add: sap_example_def plain_sum_example alternating_sum_example lerp_ends)

text \<open>
  With two infinite taps the plain sum is infinite and the alternating sum is NaN;
  \<open>sum(0)\<close> is then NaN and not the plain sum divided by \<open>2 * nAllpass\<close>.
\<close>

theorem SerialAllpass_sum_counterexample:
  "SerialAllpass_sum sap_infinite (Fin 0) = NaN
   \<and> plain_sum (sap_buffer sap_infinite)
       / (Fin 2 * Fin (real (length (sap_buffer sap_infinite)))) = PInf
   \<and> SerialAllpass_sum sap_infinite (Fin 0)
       \<noteq> plain_sum (sap_buffer sap_infinite)
           / (Fin 2 * Fin (real (length (sap_buffer sap_infinite))))"
  by (simp add: sap_infinite_def SerialAllpass_sum_def accumulate_def lerp_def
      minus_sample_def plain_sum_def lessThan_Suc numeral_2_eq_2 zero_sample_def)

subsection \<open>The coefficient of the adaptive notch filter\<close>

lemma alpha_update:
  "notch_alpha (snd (AdaptiveNotchCPZ_process fl epsilon n input narrowness))
     = clamp (notch_update fl epsilon n input narrowness) (Fin (- 2)) (Fin 2)"
  by (simp add: AdaptiveNotchCPZ_process_def Let_def)

lemma notch_run_snoc:
  "AdaptiveNotchCPZ_run fl epsilon n (xs @ [(x, w)])
     = snd (AdaptiveNotchCPZ_process fl epsilon (AdaptiveNotchCPZ_run fl epsilon n xs) x w)"
  by (induction xs arbitrary: n) auto

lemma clamp_bound:
  "(Fin (- 2) \<le> clamp u (Fin (- 2)) (Fin 2) \<and> clamp u (Fin (- 2)) (Fin 2) \<le> Fin 2) = (u \<noteq> NaN)"
  "(clamp u (Fin (- 2)) (Fin 2) = NaN) = (u = NaN)"
  by (cases u; simp add: clamp_def)+

text \<open>
  C2, as amended: every call to \<open>AdaptiveNotchCPZ::process\<close> sets \<open>alpha\<close> to
  \<open>clamp(alpha - mu * y0 * s0, -2, 2)\<close> with the fixed step \<open>mu = 2/1024\<close>, where
  \<open>y0\<close> is the two-pole recursive output and \<open>s0\<close> the error signal, both computed
  from the state variables. After a call, \<open>alpha\<close> lies in \<open>[-2, 2]\<close> exactly when
  the value \<open>alpha - mu * y0 * s0\<close> computed in that call is not NaN, and is NaN
  otherwise. That is so from every state, hence after every call of every sequence
  of calls from \<open>reset()\<close>, which sets \<open>alpha = -2\<close>.

  The statement holds for every rounding \<open>fl\<close> of the sample format, so it does
  not depend on how the format rounds or overflows. The product is evaluated as
  \<open>(y0 * s0) * mu\<close>.
\<close>

theorem AdaptiveNotchCPZ_alpha_bounded:
  "notch_alpha (snd (AdaptiveNotchCPZ_process fl epsilon n input narrowness))
     = clamp (notch_update fl epsilon n input narrowness) (Fin (- 2)) (Fin 2)
   \<and> notch_update fl epsilon n input narrowness
     = fl (notch_alpha n
           - fl (fl (notch_y0 fl epsilon n input narrowness * notch_s0 fl epsilon n input narrowness)
                 * AdaptiveNotchCPZ_mu))
   \<and> AdaptiveNotchCPZ_mu = Fin (2 / 1024)
   \<and> (Fin (- 2) \<le> notch_alpha (snd (AdaptiveNotchCPZ_process fl epsilon n input narrowness))
       \<and> notch_alpha (snd (AdaptiveNotchCPZ_process fl epsilon n input narrowness)) \<le> Fin 2)
     = (notch_update fl epsilon n input narrowness \<noteq> NaN)
   \<and> (notch_alpha (snd (AdaptiveNotchCPZ_process fl epsilon n input narrowness)) = NaN)
     = (notch_update fl epsilon n input narrowness = NaN)
   \<and> notch_alpha (AdaptiveNotchCPZ_reset n) = Fin (- 2)
   \<and> (Fin (- 2) \<le> notch_alpha (AdaptiveNotchCPZ_run fl epsilon (AdaptiveNotchCPZ_reset n)
                                  (xs @ [(input, narrowness)]))
       \<and> notch_alpha (AdaptiveNotchCPZ_run fl epsilon (AdaptiveNotchCPZ_reset n)
                        (xs @ [(input, narrowness)])) \<le> Fin 2)
     = (notch_update fl epsilon (AdaptiveNotchCPZ_run fl epsilon (AdaptiveNotchCPZ_reset n) xs)
          input narrowness \<noteq> NaN)"
proof -
  have update: "notch_update fl epsilon n input narrowness
     = fl (notch_alpha n
           - fl (fl (notch_y0 fl epsilon n input narrowness * notch_s0 fl epsilon n input narrowness)
                 * AdaptiveNotchCPZ_mu))"
    by (simp add: notch_update_def)
  have mu: "AdaptiveNotchCPZ_mu = Fin (2 / 1024)"
    by (simp add: AdaptiveNotchCPZ_mu_def)
  have start: "notch_alpha (AdaptiveNotchCPZ_reset n) = Fin (- 2)"
    by (simp add: AdaptiveNotchCPZ_reset_def)
  show ?thesis
    unfolding notch_run_snoc alpha_update clamp_bound
    using update mu start by simp
qed

text \<open>
  Two calls from \<open>reset()\<close> under the overflow of binary32, with the inputs 1 and
  0 and the narrowness values 1/2 and 3/4; every intermediate result is a float.
  The second call computes \<open>alpha - mu * y0 * s0 = -2 + 3/8192\<close>.
\<close>

theorem AdaptiveNotchCPZ_alpha_bounded_witness:
  "notch_update float_overflow float_epsilon
      (AdaptiveNotchCPZ_run float_overflow float_epsilon
         (AdaptiveNotchCPZ_reset AdaptiveNotchCPZ_init) [(Fin 1, Fin (1 / 2))])
      (Fin 0) (Fin (3 / 4)) = Fin (- 16381 / 8192)
   \<and> Fin (- 2) \<le> notch_alpha (AdaptiveNotchCPZ_run float_overflow float_epsilon
        (AdaptiveNotchCPZ_reset AdaptiveNotchCPZ_init) ([(Fin 1, Fin (1 / 2))] @ [(Fin 0, Fin (3 / 4))]))
   \<and> notch_alpha (AdaptiveNotchCPZ_run float_overflow float_epsilon
        (AdaptiveNotchCPZ_reset AdaptiveNotchCPZ_init) ([(Fin 1, Fin (1 / 2))] @ [(Fin 0, Fin (3 / 4))]))
       \<le> Fin 2"
  using AdaptiveNotchCPZ_alpha_bounded [of float_overflow float_epsilon AdaptiveNotchCPZ_init
      "Fin 0" "Fin (3 / 4)" "[(Fin 1, Fin (1 / 2))]"]
  by (simp add: float_epsilon_def AdaptiveNotchCPZ_init_def AdaptiveNotchCPZ_reset_def
      AdaptiveNotchCPZ_process_def notch_update_def notch_y0_def notch_s0_def notch_v0_def
      notch_x0_def clamp_def AdaptiveNotchCPZ_mu_def minus_sample_def float_overflow_def Let_def)

text \<open>
  A NaN input passes the clamp of the input and the clamp of \<open>alpha\<close>: after one
  call from \<open>reset()\<close>, \<open>alpha\<close> is NaN and not in \<open>[-2, 2]\<close>, under every rounding
  that keeps NaN. Under the overflow of binary32 the input 1 with the finite
  narrowness \<open>2^70\<close> has the same effect: \<open>a2 = narrowness * narrowness\<close> overflows
  to an infinity, and its product with the zero \<open>v2\<close> is NaN.
\<close>

theorem AdaptiveNotchCPZ_alpha_counterexample:
  "notch_alpha (AdaptiveNotchCPZ_run float_overflow float_epsilon
        (AdaptiveNotchCPZ_reset AdaptiveNotchCPZ_init) [(NaN, Fin (1 / 2))]) = NaN
   \<and> \<not> (Fin (- 2) \<le> notch_alpha (AdaptiveNotchCPZ_run float_overflow float_epsilon
        (AdaptiveNotchCPZ_reset AdaptiveNotchCPZ_init) [(NaN, Fin (1 / 2))])
        \<and> notch_alpha (AdaptiveNotchCPZ_run float_overflow float_epsilon
        (AdaptiveNotchCPZ_reset AdaptiveNotchCPZ_init) [(NaN, Fin (1 / 2))]) \<le> Fin 2)
   \<and> notch_alpha (AdaptiveNotchCPZ_run (\<lambda>x. x) float_epsilon
        (AdaptiveNotchCPZ_reset AdaptiveNotchCPZ_init) [(NaN, Fin (1 / 2))]) = NaN
   \<and> notch_alpha (AdaptiveNotchCPZ_run float_overflow float_epsilon
        (AdaptiveNotchCPZ_reset AdaptiveNotchCPZ_init) [(Fin 1, Fin (2 ^ 70))]) = NaN"
  by (simp add: float_epsilon_def AdaptiveNotchCPZ_init_def AdaptiveNotchCPZ_reset_def
      AdaptiveNotchCPZ_process_def notch_update_def notch_y0_def notch_s0_def notch_v0_def
      notch_x0_def clamp_def AdaptiveNotchCPZ_mu_def minus_sample_def float_overflow_def Let_def)

subsection \<open>Cutoff and Q of the filters\<close>

lemma tan_cutoff_pos:
  assumes "0.00001 \<le> x" and "x \<le> 0.49998"
  shows "0 < tan (pi * x)" and "0 < tan (x * pi)"
proof -
  have "0 < pi * x" using assms(1) by simp
  moreover have "pi * x < pi / 2"
  proof -
    have "pi * x \<le> pi * 0.49998" using assms(2) by simp
    also have "\<dots> < pi * (1 / 2)" by (intro mult_strict_left_mono) simp_all
    finally show ?thesis by simp
  qed
  ultimately show "0 < tan (pi * x)" by (rule tan_gt_zero)
  then show "0 < tan (x * pi)" by (simp add: mult.commute)
qed

lemma clamp_cutoff:
  assumes "f \<noteq> NaN"
  shows "\<exists>x. clamp f SVF_minCutoff SVF_nyquist = Fin x \<and> 0.00001 \<le> x \<and> x \<le> 0.49998"
  unfolding SVF_minCutoff_def SVF_nyquist_def using clamp_not_NaN [where v = f and lo = "0.00001" and hi = "0.49998"] assms
  by simp

lemma positive_cases:
  assumes "Fin 0 < x"
  shows "(\<exists>a. x = Fin a \<and> 0 < a) \<or> x = PInf"
  using assms by (cases x) auto

lemma cutoff_tan_form:
  "ftan (clamp f SVF_minCutoff SVF_nyquist * Fin pi) = NaN
   \<or> (\<exists>t. ftan (clamp f SVF_minCutoff SVF_nyquist * Fin pi) = Fin t \<and> 0 < t)"
proof (cases "f = NaN")
  case True
  then show ?thesis by (simp add: clamp_def SVF_minCutoff_def SVF_nyquist_def)
next
  case False
  from clamp_cutoff [OF this] obtain x where
    x: "clamp f SVF_minCutoff SVF_nyquist = Fin x" "0.00001 \<le> x" "x \<le> 0.49998" by auto
  show ?thesis using tan_cutoff_pos(2) [OF x(2,3)] by (simp add: x(1))
qed

lemma Highpass2_g_form:
  "Highpass2_g c = NaN \<or> (\<exists>t. Highpass2_g c = Fin t \<and> 0 < t)"
proof (cases "c = NaN")
  case True
  then show ?thesis by (simp add: Highpass2_g_def clamp_def)
next
  case False
  from clamp_not_NaN [where v = c and lo = "0.00001" and hi = "0.49998"] this obtain x where
    x: "clamp c (Fin 0.00001) (Fin 0.49998) = Fin x" "0.00001 \<le> x" "x \<le> 0.49998" by auto
  have "Highpass2_g c = Fin (tan (pi * x))"
    unfolding Highpass2_g_def x(1) by simp
  then show ?thesis using tan_cutoff_pos(1) [OF x(2,3)] by simp
qed

lemma Highpass2_divisor_nonzero: "Highpass2_divisor (Highpass2_g c) \<noteq> Fin 0"
proof -
  from Highpass2_g_form [of c] consider "Highpass2_g c = NaN" | t where "Highpass2_g c = Fin t" "0 < t"
    by auto
  then show ?thesis
  proof cases
    case 1
    then show ?thesis by (simp add: Highpass2_divisor_def)
  next
    case 2
    have "0 < t * (t + 0.7071067811865476)" using 2(2) by simp
    then have "1 + t * (t + 0.7071067811865476) \<noteq> 0" by linarith
    then show ?thesis by (simp add: Highpass2_divisor_def Highpass2_k_def 2(1))
  qed
qed

lemma SVFHighpass_divisor_nonzero:
  assumes "Fin 0 < Q"
  shows "SVFHighpass_divisor (ftan (Fin pi * clamp f SVF_minCutoff SVF_nyquist)) (Fin 1 / Q) \<noteq> Fin 0"
proof -
  from positive_cases [OF assms] obtain v where v: "Fin 1 / Q = Fin v" "0 \<le> v" by auto
  show ?thesis
  proof (cases "f = NaN")
    case True
    then show ?thesis by (simp add: clamp_def SVFHighpass_divisor_def SVF_minCutoff_def SVF_nyquist_def)
  next
    case False
    from clamp_cutoff [OF this] obtain x where
      x: "clamp f SVF_minCutoff SVF_nyquist = Fin x" "0.00001 \<le> x" "x \<le> 0.49998" by auto
    have t: "0 < tan (pi * x)" by (rule tan_cutoff_pos(1) [OF x(2,3)])
    then have "0 \<le> tan (pi * x) * tan (pi * x) + tan (pi * x) * v" using v(2) by simp
    then have "1 + tan (pi * x) * tan (pi * x) + tan (pi * x) * v \<noteq> 0" by linarith
    then show ?thesis by (simp add: SVFHighpass_divisor_def x(1) v(1))
  qed
qed


lemma SVFHighpass_targets:
  "smoother_target (svfhp_g (SVFHighpass_push f freqNormalized Q))
     = ftan (Fin pi * clamp freqNormalized SVF_minCutoff SVF_nyquist)"
  "smoother_target (svfhp_k (SVFHighpass_push f freqNormalized Q)) = Fin 1 / Q"
  "smoother_target (svfhp_d (SVFHighpass_push f freqNormalized Q))
     = Fin 1 / SVFHighpass_divisor (ftan (Fin pi * clamp freqNormalized SVF_minCutoff SVF_nyquist))
                 (Fin 1 / Q)"
  "smoother_target (svfhp_g (SVFHighpass_reset f freqNormalized Q))
     = ftan (Fin pi * clamp freqNormalized SVF_minCutoff SVF_nyquist)"
  "smoother_target (svfhp_k (SVFHighpass_reset f freqNormalized Q)) = Fin 1 / Q"
  "smoother_target (svfhp_d (SVFHighpass_reset f freqNormalized Q))
     = Fin 1 / SVFHighpass_divisor (ftan (Fin pi * clamp freqNormalized SVF_minCutoff SVF_nyquist))
                 (Fin 1 / Q)"
  by (simp_all add: SVFHighpass_push_def SVFHighpass_reset_def SVFHighpass_assign_def
      ExpSmoother_push_def ExpSmoother_reset_def Let_def)

lemma cutoff_forms:
  fixes c :: sample and ty :: SVFType and A :: sample and f :: SVFHighpass and Q :: sample
  assumes "c \<noteq> NaN"
  shows "\<exists>x. clamp c SVF_minCutoff SVF_nyquist = Fin x \<and> 0.00001 \<le> x \<and> x \<le> 0.49998
             \<and> 0 < tan (pi * x)
             \<and> Highpass2_g c = Fin (tan (pi * x))
             \<and> SVF_g ty c A
                 = (if ty = lowshelf then Fin (tan (pi * x)) / fsqrt A
                    else if ty = highshelf then Fin (tan (pi * x)) * fsqrt A
                    else Fin (tan (pi * x)))
             \<and> smoother_target (svfhp_g (SVFHighpass_push f c Q)) = Fin (tan (pi * x))
             \<and> smoother_target (svfhp_g (SVFHighpass_reset f c Q)) = Fin (tan (pi * x))
             \<and> onepole_tan c = Fin (tan (pi * x))
             \<and> onepole_k c = Fin (1 / tan (pi * x))"
proof -
  from clamp_cutoff [OF assms] obtain x where
    x: "clamp c SVF_minCutoff SVF_nyquist = Fin x" "0.00001 \<le> x" "x \<le> 0.49998" by auto
  have t: "0 < tan (pi * x)" by (rule tan_cutoff_pos(1) [OF x(2,3)])
  have hp2: "Highpass2_g c = Fin (tan (pi * x))"
    using x(1) unfolding Highpass2_g_def SVF_minCutoff_def SVF_nyquist_def by simp
  have svf: "SVF_g ty c A
                 = (if ty = lowshelf then Fin (tan (pi * x)) / fsqrt A
                    else if ty = highshelf then Fin (tan (pi * x)) * fsqrt A
                    else Fin (tan (pi * x)))"
    by (simp add: SVF_g_def Let_def x(1) mult.commute)
  have hp: "smoother_target (svfhp_g (SVFHighpass_push f c Q)) = Fin (tan (pi * x))"
    "smoother_target (svfhp_g (SVFHighpass_reset f c Q)) = Fin (tan (pi * x))"
    by (simp_all add: SVFHighpass_targets x(1))
  have op: "onepole_tan c = Fin (tan (pi * x))"
    by (simp add: onepole_tan_def Let_def x(1))
  have k: "onepole_k c = Fin (1 / tan (pi * x))"
    using t by (simp add: onepole_k_def op)
  from x t hp2 svf hp op k show ?thesis by blast
qed

lemma onepole_divisors_not_zero:
  "onepole_tan c \<noteq> Fin 0" "onepole_a0 c \<noteq> Fin 0" "onepole_k c + Fin 1 \<noteq> Fin 0"
proof -
  have "onepole_tan c \<noteq> Fin 0 \<and> onepole_a0 c \<noteq> Fin 0 \<and> onepole_k c + Fin 1 \<noteq> Fin 0"
  proof (cases "c = NaN")
    case True
    then show ?thesis
      by (simp add: onepole_tan_def onepole_k_def onepole_a0_def clamp_def SVF_minCutoff_def
          SVF_nyquist_def Let_def)
  next
    case False
    from cutoff_forms [OF this, of lowpass "Fin 1" SVFHighpass_init "Fin 1"] obtain x where
      x: "0 < tan (pi * x)" "onepole_tan c = Fin (tan (pi * x))"
         "onepole_k c = Fin (1 / tan (pi * x))" by auto
    have "0 < 1 / tan (pi * x)" using x(1) by simp
    then have "1 + 1 / tan (pi * x) \<noteq> 0" "1 / tan (pi * x) + 1 \<noteq> 0" by linarith+
    then show ?thesis using x(1) by (simp add: onepole_a0_def x(2,3))
  qed
  then show "onepole_tan c \<noteq> Fin 0" "onepole_a0 c \<noteq> Fin 0" "onepole_k c + Fin 1 \<noteq> Fin 0"
    by simp_all
qed

lemma fsqrt_cases:
  "fsqrt y = NaN \<or> fsqrt y = PInf \<or> (\<exists>a. fsqrt y = Fin a \<and> 0 \<le> a)"
  by (cases y) auto

lemma fsqrt_nonzero_cases:
  assumes "y \<noteq> Fin 0"
  shows "positive_or_NaN (fsqrt y)"
  using assms by (cases y) (auto simp add: positive_or_NaN_def)

lemma fsqrt_positive_or_NaN:
  assumes "positive_or_NaN y"
  shows "positive_or_NaN (fsqrt y)"
  using assms by (auto simp add: positive_or_NaN_def)

lemma SVF_A_cases:
  assumes "ty = bell \<or> ty = lowshelf \<longrightarrow> shelvingGainAmp \<noteq> Fin 0"
  shows "ty = highshelf \<or> positive_or_NaN (SVF_A ty shelvingGainAmp)"
  using assms fsqrt_nonzero_cases [of shelvingGainAmp]
  by (auto simp add: SVF_A_def positive_or_NaN_def)

lemma SVF_g_cases:
  assumes "ty = lowshelf \<longrightarrow> positive_or_NaN A"
  shows "SVF_g ty normalizedFreq A = NaN \<or> SVF_g ty normalizedFreq A = PInf
         \<or> (\<exists>u. SVF_g ty normalizedFreq A = Fin u \<and> 0 \<le> u)"
proof -
  from cutoff_tan_form [of normalizedFreq] consider
    "ftan (clamp normalizedFreq SVF_minCutoff SVF_nyquist * Fin pi) = NaN"
    | t where "ftan (clamp normalizedFreq SVF_minCutoff SVF_nyquist * Fin pi) = Fin t" "0 < t"
    by auto
  then show ?thesis
  proof cases
    case 1
    then show ?thesis by (simp add: SVF_g_def Let_def)
  next
    case 2
    show ?thesis
    proof (cases "ty = lowshelf")
      case True
      with assms have "positive_or_NaN (fsqrt A)" by (simp add: fsqrt_positive_or_NaN)
      then show ?thesis using 2 True
        by (auto simp add: SVF_g_def Let_def positive_or_NaN_def)
    next
      case False
      from fsqrt_cases [of A] show ?thesis using 2 False
        by (auto simp add: SVF_g_def Let_def)
    qed
  qed
qed

lemma SVF_k_cases:
  assumes "Fin 0 < Q" and "ty = bell \<longrightarrow> positive_or_NaN A"
  shows "SVF_k ty Q A = NaN \<or> (\<exists>v. SVF_k ty Q A = Fin v \<and> 0 \<le> v)"
  using positive_cases [OF assms(1)] assms(2)
  by (auto simp add: SVF_k_def Let_def positive_or_NaN_def)

lemma SVF_divisor_not_zero:
  assumes "g = NaN \<or> g = PInf \<or> (\<exists>u. g = Fin u \<and> 0 \<le> u)"
    and "k = NaN \<or> (\<exists>v. k = Fin v \<and> 0 \<le> v)"
  shows "SVF_divisor g k \<noteq> Fin 0"
proof (cases "k = NaN")
  case True
  then show ?thesis by (cases g) (simp_all add: SVF_divisor_def)
next
  case False
  with assms(2) obtain v where v: "k = Fin v" "0 \<le> v" by auto
  from assms(1) consider "g = NaN" | "g = PInf" | u where "g = Fin u" "0 \<le> u" by auto
  then show ?thesis
  proof cases
    case 1
    then show ?thesis by (simp add: SVF_divisor_def)
  next
    case 2
    then show ?thesis by (simp add: SVF_divisor_def v)
  next
    case 3
    have "0 \<le> u * (u + v)" using 3(2) v(2) by simp
    then have "1 + u * (u + v) \<noteq> 0" by linarith
    then show ?thesis by (simp add: SVF_divisor_def v 3(1))
  qed
qed

lemma SVF_divisors_not_zero:
  assumes "Fin 0 < Q" and "ty = bell \<or> ty = lowshelf \<longrightarrow> shelvingGainAmp \<noteq> Fin 0"
  shows "Fin 0 \<notin> set (SVF_divisors ty normalizedFreq Q shelvingGainAmp)"
proof -
  let ?A = "SVF_A ty shelvingGainAmp"
  from SVF_A_cases [OF assms(2)] have A: "ty = bell \<or> ty = lowshelf \<longrightarrow> positive_or_NaN ?A"
    by auto
  have "SVF_divisor (SVF_g ty normalizedFreq ?A) (SVF_k ty Q ?A) \<noteq> Fin 0"
    by (rule SVF_divisor_not_zero [OF SVF_g_cases SVF_k_cases [OF assms(1)]]) (use A in auto)
  moreover have "ty = lowshelf \<longrightarrow> fsqrt ?A \<noteq> Fin 0"
    using A fsqrt_positive_or_NaN [of ?A] by (auto simp add: positive_or_NaN_def)
  moreover have "ty = bell \<longrightarrow> ?A \<noteq> Fin 0" using A by (auto simp add: positive_or_NaN_def)
  moreover have "Q \<noteq> Fin 0" using assms(1) by auto
  ultimately show ?thesis by (auto simp add: SVF_divisors_def Let_def)
qed

text \<open>
  C7, as amended: in every filter of the sources that takes a tangent of its
  cutoff (\<open>LP1\<close>, \<open>HP1\<close>, \<open>AP1\<close>, \<open>SVF::process\<close>, \<open>SVFHighpass\<close> and
  \<open>Highpass2::process\<close>) the normalized cutoff passes \<open>std::clamp\<close> with the bounds
  \<open>0.00001\<close> and \<open>0.49998\<close> before the tangent is taken. For every cutoff other
  than NaN, which the clamp returns as it is, the clamped cutoff lies in
  \<open>[0.00001, 0.49998]\<close>, the argument of the tangent is bounded and the tangent
  \<open>g\<close> is positive (scaled by \<open>sqrt(A)\<close> in the two shelves). The divisions of
  \<open>LP1\<close>, \<open>HP1\<close>, \<open>AP1\<close> and \<open>Highpass2::process\<close>, whose divisors depend on the
  cutoff alone, never divide by zero, for any cutoff. \<open>Q\<close> and the shelving gain
  are not clamped or guarded: \<open>SVF::process\<close> and \<open>SVFHighpass\<close> compute
  \<open>k = 1 / Q\<close> from \<open>Q\<close> as it is given (divided by \<open>A\<close> for the bell). No
  divisor of \<open>SVF::process\<close> is zero for every \<open>Q > 0\<close> and, in the bell and the
  low shelf, every shelving gain other than 0; the divisor of \<open>SVFHighpass\<close> is
  not zero for every \<open>Q > 0\<close>.
\<close>

theorem cutoff_clamped_Q_unguarded:
  "(normalizedFreq \<noteq> NaN \<longrightarrow>
      (\<exists>x. clamp normalizedFreq SVF_minCutoff SVF_nyquist = Fin x
           \<and> 0.00001 \<le> x \<and> x \<le> 0.49998
           \<and> 0 < tan (pi * x)
           \<and> Highpass2_g normalizedFreq = Fin (tan (pi * x))
           \<and> SVF_g ty normalizedFreq A
               = (if ty = lowshelf then Fin (tan (pi * x)) / fsqrt A
                  else if ty = highshelf then Fin (tan (pi * x)) * fsqrt A
                  else Fin (tan (pi * x)))
           \<and> smoother_target (svfhp_g (SVFHighpass_push f normalizedFreq Q)) = Fin (tan (pi * x))
           \<and> smoother_target (svfhp_g (SVFHighpass_reset f normalizedFreq Q)) = Fin (tan (pi * x))
           \<and> onepole_tan normalizedFreq = Fin (tan (pi * x))
           \<and> onepole_k normalizedFreq = Fin (1 / tan (pi * x))))
   \<and> Highpass2_divisor (Highpass2_g normalizedFreq) \<noteq> Fin 0
   \<and> Fin 0 \<notin> set (LP1_divisors normalizedFreq)
   \<and> Fin 0 \<notin> set (HP1_divisors normalizedFreq)
   \<and> Fin 0 \<notin> set (AP1_divisors normalizedFreq)
   \<and> SVF_k ty Q (SVF_A ty shelvingGainAmp)
       = (if ty = bell then Fin 1 / Q / SVF_A ty shelvingGainAmp else Fin 1 / Q)
   \<and> smoother_target (svfhp_k (SVFHighpass_push f normalizedFreq Q)) = Fin 1 / Q
   \<and> smoother_target (svfhp_k (SVFHighpass_reset f normalizedFreq Q)) = Fin 1 / Q
   \<and> (Fin 0 < Q \<and> (ty = bell \<or> ty = lowshelf \<longrightarrow> shelvingGainAmp \<noteq> Fin 0) \<longrightarrow>
        Fin 0 \<notin> set (SVF_divisors ty normalizedFreq Q shelvingGainAmp))
   \<and> (Fin 0 < Q \<longrightarrow>
        SVFHighpass_divisor (smoother_target (svfhp_g (SVFHighpass_push f normalizedFreq Q)))
          (smoother_target (svfhp_k (SVFHighpass_push f normalizedFreq Q))) \<noteq> Fin 0
        \<and> SVFHighpass_divisor (smoother_target (svfhp_g (SVFHighpass_reset f normalizedFreq Q)))
          (smoother_target (svfhp_k (SVFHighpass_reset f normalizedFreq Q))) \<noteq> Fin 0)"
proof (intro conjI impI)
  assume "normalizedFreq \<noteq> NaN"
  then show "\<exists>x. clamp normalizedFreq SVF_minCutoff SVF_nyquist = Fin x
           \<and> 0.00001 \<le> x \<and> x \<le> 0.49998
           \<and> 0 < tan (pi * x)
           \<and> Highpass2_g normalizedFreq = Fin (tan (pi * x))
           \<and> SVF_g ty normalizedFreq A
               = (if ty = lowshelf then Fin (tan (pi * x)) / fsqrt A
                  else if ty = highshelf then Fin (tan (pi * x)) * fsqrt A
                  else Fin (tan (pi * x)))
           \<and> smoother_target (svfhp_g (SVFHighpass_push f normalizedFreq Q)) = Fin (tan (pi * x))
           \<and> smoother_target (svfhp_g (SVFHighpass_reset f normalizedFreq Q)) = Fin (tan (pi * x))
           \<and> onepole_tan normalizedFreq = Fin (tan (pi * x))
           \<and> onepole_k normalizedFreq = Fin (1 / tan (pi * x))"
    by (rule cutoff_forms)
next
  show "Highpass2_divisor (Highpass2_g normalizedFreq) \<noteq> Fin 0"
    by (rule Highpass2_divisor_nonzero)
next
  show "Fin 0 \<notin> set (LP1_divisors normalizedFreq)"
    using onepole_divisors_not_zero [of normalizedFreq] by (auto simp add: LP1_divisors_def)
next
  show "Fin 0 \<notin> set (HP1_divisors normalizedFreq)"
    using onepole_divisors_not_zero [of normalizedFreq] by (auto simp add: HP1_divisors_def)
next
  show "Fin 0 \<notin> set (AP1_divisors normalizedFreq)"
    using onepole_divisors_not_zero [of normalizedFreq] by (auto simp add: AP1_divisors_def)
next
  show "SVF_k ty Q (SVF_A ty shelvingGainAmp)
       = (if ty = bell then Fin 1 / Q / SVF_A ty shelvingGainAmp else Fin 1 / Q)"
    by (simp add: SVF_k_def Let_def)
next
  show "smoother_target (svfhp_k (SVFHighpass_push f normalizedFreq Q)) = Fin 1 / Q"
    by (simp add: SVFHighpass_targets)
next
  show "smoother_target (svfhp_k (SVFHighpass_reset f normalizedFreq Q)) = Fin 1 / Q"
    by (simp add: SVFHighpass_targets)
next
  assume "Fin 0 < Q \<and> (ty = bell \<or> ty = lowshelf \<longrightarrow> shelvingGainAmp \<noteq> Fin 0)"
  then show "Fin 0 \<notin> set (SVF_divisors ty normalizedFreq Q shelvingGainAmp)"
    by (simp add: SVF_divisors_not_zero)
next
  assume Q: "Fin 0 < Q"
  show "SVFHighpass_divisor (smoother_target (svfhp_g (SVFHighpass_push f normalizedFreq Q)))
          (smoother_target (svfhp_k (SVFHighpass_push f normalizedFreq Q))) \<noteq> Fin 0"
    unfolding SVFHighpass_targets by (rule SVFHighpass_divisor_nonzero [OF Q])
  show "SVFHighpass_divisor (smoother_target (svfhp_g (SVFHighpass_reset f normalizedFreq Q)))
          (smoother_target (svfhp_k (SVFHighpass_reset f normalizedFreq Q))) \<noteq> Fin 0"
    unfolding SVFHighpass_targets by (rule SVFHighpass_divisor_nonzero [OF Q])
qed

text \<open>
  At a quarter of the sample rate the tangent is 1. With \<open>Q = 1\<close> the divisors of
  the lowpass are 1 and 3; with the shelving gain 4 those of the bell are 1, 2 and
  5/2. The divisors of \<open>LP1\<close> are 1, 2 and 2.
\<close>

lemma SVF_divisors_example:
  "SVF_divisors lowpass (Fin (1 / 4)) (Fin 1) (Fin 1) = [Fin 1, Fin 3]"
  "SVF_divisors bell (Fin (1 / 4)) (Fin 1) (Fin 4) = [Fin 1, Fin 2, Fin (5 / 2)]"
  by (simp_all add: SVF_divisors_def SVF_A_def SVF_g_def SVF_k_def SVF_divisor_def clamp_def
      SVF_minCutoff_def SVF_nyquist_def Let_def tan_45)

lemma onepole_example:
  "onepole_tan (Fin (1 / 4)) = Fin 1" "onepole_k (Fin (1 / 4)) = Fin 1"
  "LP1_divisors (Fin (1 / 4)) = [Fin 1, Fin 2, Fin 2]"
  "Highpass2_g (Fin (1 / 4)) = Fin 1"
  by (simp_all add: LP1_divisors_def onepole_a0_def onepole_k_def onepole_tan_def
      Highpass2_g_def clamp_def SVF_minCutoff_def SVF_nyquist_def Let_def tan_45)

theorem cutoff_clamped_Q_unguarded_witness:
  "Fin (1 / 4) \<noteq> NaN \<and> Fin 0 < Fin 1 \<and> Fin 4 \<noteq> Fin 0
   \<and> Fin 0 \<notin> set (SVF_divisors bell (Fin (1 / 4)) (Fin 1) (Fin 4))
   \<and> SVF_divisors bell (Fin (1 / 4)) (Fin 1) (Fin 4) = [Fin 1, Fin 2, Fin (5 / 2)]
   \<and> SVF_divisors lowpass (Fin (1 / 4)) (Fin 1) (Fin 1) = [Fin 1, Fin 3]
   \<and> Highpass2_g (Fin (1 / 4)) = Fin 1
   \<and> onepole_k (Fin (1 / 4)) = Fin 1
   \<and> Fin 0 \<notin> set (LP1_divisors (Fin (1 / 4)))
   \<and> LP1_divisors (Fin (1 / 4)) = [Fin 1, Fin 2, Fin 2]
   \<and> SVFHighpass_divisor
        (smoother_target (svfhp_g (SVFHighpass_push SVFHighpass_init (Fin (1 / 4)) (Fin 1))))
        (smoother_target (svfhp_k (SVFHighpass_push SVFHighpass_init (Fin (1 / 4)) (Fin 1))))
       \<noteq> Fin 0"
proof -
  from cutoff_clamped_Q_unguarded [of "Fin (1 / 4)" bell "Fin 2" SVFHighpass_init "Fin 1" "Fin 4"]
  have svf: "Fin 0 < Fin 1 \<and> (bell = bell \<or> bell = lowshelf \<longrightarrow> Fin 4 \<noteq> Fin 0) \<longrightarrow>
        Fin 0 \<notin> set (SVF_divisors bell (Fin (1 / 4)) (Fin 1) (Fin 4))"
    and lp1: "Fin 0 \<notin> set (LP1_divisors (Fin (1 / 4)))"
    and svfhp: "Fin 0 < Fin 1 \<longrightarrow>
        SVFHighpass_divisor
          (smoother_target (svfhp_g (SVFHighpass_push SVFHighpass_init (Fin (1 / 4)) (Fin 1))))
          (smoother_target (svfhp_k (SVFHighpass_push SVFHighpass_init (Fin (1 / 4)) (Fin 1))))
         \<noteq> Fin 0
        \<and> SVFHighpass_divisor
          (smoother_target (svfhp_g (SVFHighpass_reset SVFHighpass_init (Fin (1 / 4)) (Fin 1))))
          (smoother_target (svfhp_k (SVFHighpass_reset SVFHighpass_init (Fin (1 / 4)) (Fin 1))))
         \<noteq> Fin 0"
    by blast+
  have "Fin 0 \<notin> set (SVF_divisors bell (Fin (1 / 4)) (Fin 1) (Fin 4))"
    using svf by simp
  moreover have "SVFHighpass_divisor
        (smoother_target (svfhp_g (SVFHighpass_push SVFHighpass_init (Fin (1 / 4)) (Fin 1))))
        (smoother_target (svfhp_k (SVFHighpass_push SVFHighpass_init (Fin (1 / 4)) (Fin 1))))
       \<noteq> Fin 0"
    using svfhp by simp
  ultimately show ?thesis
    using lp1 by (simp add: SVF_divisors_example onepole_example)
qed

text \<open>
  With \<open>Q = 0\<close> the division \<open>1 / Q\<close> is a division by zero and \<open>k\<close> is infinite,
  in \<open>SVF::process\<close> and in \<open>SVFHighpass\<close>. With the negative \<open>Q = -1/2\<close> at a
  quarter of the sample rate the divisor of the tick is zero. With the shelving
  gain 0, \<open>A\<close> is zero, and the bell divides \<open>k\<close> and the low shelf \<open>g\<close> by zero. A
  NaN cutoff passes the clamp, and the argument of the tangent and \<open>g\<close> are NaN.
\<close>

theorem Q_unguarded_counterexample:
  "Fin 0 \<in> set (SVF_divisors lowpass (Fin (1 / 4)) (Fin 0) (Fin 1))
   \<and> SVF_k lowpass (Fin 0) (SVF_A lowpass (Fin 1)) = PInf
   \<and> smoother_target (svfhp_k (SVFHighpass_push SVFHighpass_init (Fin (1 / 4)) (Fin 0))) = PInf
   \<and> SVF_divisors lowpass (Fin (1 / 4)) (Fin (- 1 / 2)) (Fin 1) = [Fin (- 1 / 2), Fin 0]
   \<and> SVF_divisors bell (Fin (1 / 4)) (Fin 1) (Fin 0) = [Fin 1, Fin 0, PInf]
   \<and> SVF_divisors lowshelf (Fin (1 / 4)) (Fin 1) (Fin 0) = [Fin 0, Fin 1, PInf]
   \<and> clamp NaN SVF_minCutoff SVF_nyquist = NaN
   \<and> Highpass2_g NaN = NaN
   \<and> SVF_g lowpass NaN (Fin 1) = NaN
   \<and> onepole_tan NaN = NaN"
  by (simp add: SVF_divisors_def SVF_A_def SVF_g_def SVF_k_def SVF_divisor_def clamp_def
      SVF_minCutoff_def SVF_nyquist_def Let_def tan_45 SVFHighpass_targets Highpass2_g_def
      onepole_tan_def)

subsection \<open>Voices at rest\<close>

lemma Note_process_at_rest:
  assumes "note_state n = Note_rest"
  shows "Note_process processKp oscillators gainSustainAmplitude oscMix n = ((Fin 0, Fin 0), n)"
  using assms by (simp add: Note_process_def)

lemma Note_process_terminated:
  assumes "note_state n \<noteq> Note_rest"
    and "ADSREnvelope_isTerminated
           (snd (ADSREnvelope_process processKp (note_gainEnvelope n) gainSustainAmplitude))"
  shows "Note_process processKp oscillators gainSustainAmplitude oscMix n
           = ((Fin 0, Fin 0),
              n\<lparr>note_gainEnvelope :=
                    snd (ADSREnvelope_process processKp (note_gainEnvelope n) gainSustainAmplitude),
                note_state := Note_rest\<rparr>)"
  using assms by (simp add: Note_process_def Let_def)

lemma ADSREnvelope_release_terminates:
  assumes "adsr_state e = ADSR_release" and "dema_v2 (adsr_smoother e) \<le> Fin float_epsilon"
  shows "ADSREnvelope_isTerminated (snd (ADSREnvelope_process processKp e sustainAmplitude))"
  using assms by (simp add: ADSREnvelope_process_def ADSREnvelope_isTerminated_def Let_def)

lemma add_zero_sample: "x + Fin 0 = x"
  by (cases x) simp_all

lemma processSample_notes_silent:
  assumes "\<forall>n \<in> set voices. silent processKp gainSustainAmplitude n"
  shows "fst (processSample_notes (Note_process processKp oscillators gainSustainAmplitude oscMix)
                voices frame) = frame
       \<and> (\<forall>n \<in> set (snd (processSample_notes
                (Note_process processKp oscillators gainSustainAmplitude oscMix) voices frame)).
             note_state n = Note_rest)"
  using assms
proof (induction voices arbitrary: frame)
  case Nil
  then show ?case by simp
next
  case (Cons n voices)
  from Cons.prems have rest: "\<forall>n \<in> set voices. silent processKp gainSustainAmplitude n"
    and n: "silent processKp gainSustainAmplitude n" by auto
  show ?case
  proof (cases "note_state n = Note_rest")
    case True
    then show ?thesis using Cons.IH [OF rest] by (simp add: Let_def)
  next
    case False
    with n have "ADSREnvelope_isTerminated
           (snd (ADSREnvelope_process processKp (note_gainEnvelope n) gainSustainAmplitude))"
      by (simp add: silent_def)
    from Note_process_terminated [OF False this]
    show ?thesis using False Cons.IH [OF rest] by (simp add: Let_def add_zero_sample)
  qed
qed

lemma Note_process_times_rest:
  assumes "note_state n = Note_rest"
  shows "Note_process_times k (Note_process processKp oscillators gainSustainAmplitude oscMix) n
           = (replicate k (Fin 0, Fin 0), n)"
  by (induction k) (simp_all add: Note_process_at_rest [OF assms] Let_def)

text \<open>
  C10: for a voice at rest \<open>Note::process\<close> returns the pair \<open>(0, 0)\<close> and leaves
  the voice as it is, envelopes, LFOs and oscillators included. In the first call in
  which the gain envelope reports \<open>isTerminated()\<close> the voice is set to rest and
  \<open>(0, 0)\<close> is returned, and so in every later call. The voices that are silent in a
  call of \<open>processSample\<close> add nothing to the frame.
\<close>

theorem Note_process_rest_silent:
  "(note_state n = Note_rest \<longrightarrow>
      Note_process processKp oscillators gainSustainAmplitude oscMix n = ((Fin 0, Fin 0), n))
   \<and> (note_state n \<noteq> Note_rest
       \<and> ADSREnvelope_isTerminated
           (snd (ADSREnvelope_process processKp (note_gainEnvelope n) gainSustainAmplitude)) \<longrightarrow>
      fst (Note_process processKp oscillators gainSustainAmplitude oscMix n) = (Fin 0, Fin 0)
      \<and> note_state (snd (Note_process processKp oscillators gainSustainAmplitude oscMix n))
          = Note_rest
      \<and> Note_process_times k (Note_process processKp oscillators gainSustainAmplitude oscMix)
          (snd (Note_process processKp oscillators gainSustainAmplitude oscMix n))
          = (replicate k (Fin 0, Fin 0),
             snd (Note_process processKp oscillators gainSustainAmplitude oscMix n)))
   \<and> ((\<forall>m \<in> set notes. silent processKp gainSustainAmplitude m) \<longrightarrow>
      fst (processSample_notes (Note_process processKp oscillators gainSustainAmplitude oscMix)
             notes frame) = frame)"
proof (intro conjI impI)
  assume "note_state n = Note_rest"
  then show "Note_process processKp oscillators gainSustainAmplitude oscMix n = ((Fin 0, Fin 0), n)"
    by (rule Note_process_at_rest)
next
  assume a: "note_state n \<noteq> Note_rest
       \<and> ADSREnvelope_isTerminated
           (snd (ADSREnvelope_process processKp (note_gainEnvelope n) gainSustainAmplitude))"
  let ?r = "Note_process processKp oscillators gainSustainAmplitude oscMix n"
  have r: "?r = ((Fin 0, Fin 0),
              n\<lparr>note_gainEnvelope :=
                    snd (ADSREnvelope_process processKp (note_gainEnvelope n) gainSustainAmplitude),
                note_state := Note_rest\<rparr>)"
    using a by (simp add: Note_process_terminated)
  show "fst ?r = (Fin 0, Fin 0)" by (simp add: r)
  show st: "note_state (snd ?r) = Note_rest" by (simp add: r)
  show "Note_process_times k (Note_process processKp oscillators gainSustainAmplitude oscMix) (snd ?r)
          = (replicate k (Fin 0, Fin 0), snd ?r)"
    by (rule Note_process_times_rest [OF st])
next
  assume "\<forall>m \<in> set notes. silent processKp gainSustainAmplitude m"
  from processSample_notes_silent [OF this]
  show "fst (processSample_notes (Note_process processKp oscillators gainSustainAmplitude oscMix)
             notes frame) = frame"
    by simp
qed

theorem Note_process_rest_silent_witness:
  "note_state (Note_rest_fn note_releasing) = Note_rest
   \<and> Note_process keep_smoother constant_oscillators (Fin (1 / 2)) (Fin (1 / 2))
        (Note_rest_fn note_releasing) = ((Fin 0, Fin 0), Note_rest_fn note_releasing)
   \<and> note_state note_releasing \<noteq> Note_rest
   \<and> ADSREnvelope_isTerminated
        (snd (ADSREnvelope_process keep_smoother (note_gainEnvelope note_releasing) (Fin (1 / 2))))
   \<and> fst (Note_process keep_smoother constant_oscillators (Fin (1 / 2)) (Fin (1 / 2)) note_releasing)
       = (Fin 0, Fin 0)
   \<and> fst (processSample_notes
            (Note_process keep_smoother constant_oscillators (Fin (1 / 2)) (Fin (1 / 2)))
            [note_releasing, Note_rest_fn note_releasing] (Fin 3, Fin 4)) = (Fin 3, Fin 4)"
  using Note_process_rest_silent [of "Note_rest_fn note_releasing" keep_smoother constant_oscillators
      "Fin (1 / 2)" "Fin (1 / 2)" 2 "[note_releasing, Note_rest_fn note_releasing]" "(Fin 3, Fin 4)"]
    Note_process_rest_silent [of note_releasing keep_smoother constant_oscillators
      "Fin (1 / 2)" "Fin (1 / 2)" 2 "[note_releasing, Note_rest_fn note_releasing]" "(Fin 3, Fin 4)"]
  by (simp add: note_releasing_def Note_rest_fn_def silent_def ADSREnvelope_process_def
      ADSREnvelope_isTerminated_def keep_smoother_def float_epsilon_def Let_def)

subsection \<open>Voice stealing\<close>

lemma upt2: "[0..<2] = [0, 1]"
  by (simp add: upt_rec)

text \<open>
  On elements that the comparison orders by a real key, the insertion sort returns
  the elements in ascending order of the key.
\<close>

lemma linear_insert_sorted:
  assumes "\<forall>y \<in> set ys. cmp x y = (key x < (key y :: real))"
    and "sorted (map key (rev ys))"
  shows "sorted (map key (rev (linear_insert cmp x ys)))
       \<and> set (linear_insert cmp x ys) = insert x (set ys)"
  using assms
proof (induction ys)
  case Nil
  then show ?case by simp
next
  case (Cons y ys)
  from Cons.prems have ys: "\<forall>y \<in> set ys. cmp x y = (key x < key y)"
    and srt: "sorted (map key (rev ys))" and le: "\<forall>z \<in> set ys. key z \<le> key y"
    by (auto simp add: sorted_append)
  show ?case
  proof (cases "cmp x y")
    case True
    with Cons.prems have "key x < key y" by simp
    with Cons.IH [OF ys srt] le True show ?thesis
      by (auto simp add: sorted_append)
  next
    case False
    with Cons.prems have "key y \<le> key x" by simp
    with Cons.prems False show ?thesis
      by (auto simp add: sorted_append)
  qed
qed

lemma insertion_sort_sorted:
  assumes "\<forall>x \<in> set front \<union> set xs. \<forall>y \<in> set front \<union> set xs. cmp x y = (key x < (key y :: real))"
    and "sorted (map key front)"
  shows "sorted (map key (insertion_sort cmp front xs))
       \<and> set (insertion_sort cmp front xs) = set front \<union> set xs"
  using assms
proof (induction cmp front xs rule: insertion_sort.induct)
  case (1 cmp front)
  then show ?case by simp
next
  case (2 cmp x xs)
  then show ?case by simp
next
  case (3 cmp first others x xs)
  let ?front = "first # others"
  let ?next = "(if cmp x first then x # ?front else rev (linear_insert cmp x (rev ?front)))"
  have c: "\<forall>y \<in> set (rev ?front). cmp x y = (key x < key y)"
    using "3.prems"(1) by simp
  have s: "sorted (map key (rev (rev ?front)))" using "3.prems"(2) by simp
  have nxt: "sorted (map key ?next) \<and> set ?next = insert x (set ?front)"
  proof (cases "cmp x first")
    case True
    with "3.prems"(1) have "key x < key first" by simp
    with True "3.prems"(2) show ?thesis by auto
  next
    case False
    with linear_insert_sorted [where ys = "rev ?front" and cmp = cmp and x = x and key = key, OF c s]
    show ?thesis by simp
  qed
  have "\<forall>a \<in> set ?next \<union> set xs. \<forall>b \<in> set ?next \<union> set xs. cmp a b = (key a < key b)"
    using "3.prems"(1) nxt by auto
  from "3.IH" [OF this] nxt show ?case by auto
qed

lemma noteOn_pickResting_none:
  assumes "\<forall>i \<in> set indices. note_id (voices ! i) \<noteq> noteId \<and> note_state (voices ! i) \<noteq> Note_rest"
  shows "noteOn_pickResting voices noteId indices [] = []"
  using assms by (induction indices) (simp_all add: Let_def nUnison_def)

lemma noteOn_steal_head: "noteOn_steal (i # indices) [] = [i]"
  by (simp add: nUnison_def)

text \<open>
  When no voice is attacking and all gains are finite, the comparison orders the
  voices by gain, and the voice stolen is one of least gain.
\<close>

lemma noteOn_steals_quietest:
  assumes "0 < nVoice"
    and "\<forall>i < nVoice. note_id (voices ! i) \<noteq> noteId \<and> note_state (voices ! i) \<noteq> Note_rest"
    and "\<forall>i < nVoice. \<not> Note_isAttacking (voices ! i) \<and> isfinite (Note_getGain (voices ! i))"
  shows "\<exists>i < nVoice. noteOn_noteIndices voices nVoice noteId = [i]
           \<and> (\<forall>j < nVoice. gain_value (voices ! i) \<le> gain_value (voices ! j))"
proof -
  let ?cmp = "noteOn_compare voices"
  let ?key = "\<lambda>i. gain_value (voices ! i)"
  have "?cmp x y = (?key x < ?key y)" if "x < nVoice" and "y < nVoice" for x y
  proof -
    from assms(3) that(1) obtain rx where "Note_getGain (voices ! x) = Fin rx"
      unfolding isfinite_iff by blast
    moreover from assms(3) that(2) obtain ry where "Note_getGain (voices ! y) = Fin ry"
      unfolding isfinite_iff by blast
    ultimately have "Note_getGain (voices ! x) = Fin rx" "Note_getGain (voices ! y) = Fin ry"
      by simp_all
    with assms(3) that(1) show ?thesis
      by (simp add: noteOn_compare_def gain_value_def)
  qed
  then have cmp: "\<forall>x \<in> set [] \<union> set [0..<nVoice]. \<forall>y \<in> set [] \<union> set [0..<nVoice].
               ?cmp x y = (?key x < ?key y)"
    by simp
  from insertion_sort_sorted [OF cmp] have
    srt: "sorted (map ?key (std_sort ?cmp [0..<nVoice]))"
    and st: "set (std_sort ?cmp [0..<nVoice]) = {0..<nVoice}"
    by (simp_all add: std_sort_def)
  from st assms(1) obtain i indices where hd_eq: "std_sort ?cmp [0..<nVoice] = i # indices"
    by (cases "std_sort ?cmp [0..<nVoice]") auto
  have pick: "noteOn_pickResting voices noteId [0..<nVoice] [] = []"
    by (rule noteOn_pickResting_none) (use assms(2) in simp)
  have res: "noteOn_noteIndices voices nVoice noteId = [i]"
    by (simp add: noteOn_noteIndices_def pick hd_eq noteOn_steal_head nUnison_def Let_def)
  have i: "i < nVoice" using st hd_eq by auto
  have "\<forall>j < nVoice. ?key i \<le> ?key j"
  proof (intro allI impI)
    fix j assume "j < nVoice"
    then have "j \<in> set (i # indices)" using st hd_eq by auto
    with srt show "?key i \<le> ?key j" by (auto simp add: hd_eq)
  qed
  with res i show ?thesis by blast
qed

text \<open>
  C1 says that \<open>DSPCore::noteOn\<close>, when no voice is at rest, steals the quietest
  voice among those that are not attacking, and never an attacking voice while
  another voice is not attacking. With the two voices above and a new note id no
  voice is at rest and the second voice is not attacking, and \<open>noteOn\<close> selects
  voice 0, the attacking one: the comparison never puts a voice in front of a
  quieter attacking voice.
\<close>

theorem noteOn_steals_attacking_voice:
  "noteOn_noteIndices [voice_attacking, voice_decaying] 2 67 = [0]
   \<and> Note_isAttacking ([voice_attacking, voice_decaying] ! 0)
   \<and> \<not> Note_isAttacking ([voice_attacking, voice_decaying] ! 1)
   \<and> note_state voice_attacking = Note_active \<and> note_state voice_decaying = Note_active
   \<and> Note_getGain voice_attacking = Fin (1 / 10) \<and> Note_getGain voice_decaying = Fin (1 / 2)"
  by (simp add: noteOn_noteIndices_def upt2 nUnison_def std_sort_def noteOn_compare_def
      Note_isAttacking_def Note_getGain_def ADSREnvelope_isAttacking_def ADSREnvelope_value_def
      voice_attacking_def voice_decaying_def Let_def)

subsection \<open>The read position of the delay line\<close>

text \<open>
  \<open>setup\<close> leaves a buffer of \<open>max(4, n + 4)\<close> zero samples, where \<open>n\<close> is
  \<open>maxTimeSamples\<close> truncated, and keeps the write pointer.
\<close>

lemma Delay_setup_capacity:
  assumes "0 \<le> m" and "m < 2 ^ 64 - 4"
  shows "Delay_setup d (Fin m)
           = Some \<lparr>delay_wptr = delay_wptr d,
                   delay_buf = replicate (max 4 (nat \<lfloor>m\<rfloor> + 4)) (Fin 0)\<rparr>"
proof -
  have fl: "0 \<le> \<lfloor>m\<rfloor>" "\<lfloor>m\<rfloor> < 2 ^ 64 - 4"
    using assms by (simp_all add: floor_less_iff)
  then have "int (nat \<lfloor>m\<rfloor> + 4) < 2 ^ 64" by simp
  then have "nat \<lfloor>m\<rfloor> + 4 < 2 ^ 64" by (metis of_nat_less_iff of_nat_numeral of_nat_power)
  then have md: "(nat \<lfloor>m\<rfloor> + 4) mod 2 ^ 64 = nat \<lfloor>m\<rfloor> + 4" by simp
  have sz: "to_size (Fin m) = Some (nat \<lfloor>m\<rfloor>)"
    using assms(1) fl by (simp add: trunc_def)
  have "Delay_setup d (Fin m)
          = Some (Delay_reset
              (d\<lparr>delay_buf := resize (delay_buf d) (max 4 (nat \<lfloor>m\<rfloor> + 4))\<rparr>))"
    by (simp only: Delay_setup_def sz md option.case)
  then show ?thesis
    by (cases d) (simp add: Delay_reset_def resize_def)
qed

lemma replicate8: "replicate 8 x = [x, x, x, x, x, x, x, x]"
  by (simp add: eval_nat_numeral)

lemma setup4:
  "Delay_setup Delay_init (Fin 4)
     = Some \<lparr>delay_wptr = 0,
             delay_buf = [Fin 0, Fin 0, Fin 0, Fin 0, Fin 0, Fin 0, Fin 0, Fin 0]\<rparr>"
  by (simp add: Delay_setup_def Delay_init_def Delay_reset_def resize_def trunc_def replicate8)

lemma delay_example_reachable:
  "Option.bind (Delay_setup Delay_init (Fin 4))
     (\<lambda>d. Delay_feed d [Fin 1, Fin 4, Fin 9, Fin 16] (Fin 2)) = Some delay_example"
  by (simp add: setup4 Delay_process_def delay_example_def clamp_def minus_sample_def trunc_def
      store_def load_def wrap_index_def Let_def)

lemma Delay_process_fraction_zero:
  assumes "Delay_process d input timeInSamples = Some (y, d')"
  shows "\<exists>y0 y1 y2 y3. y = lagrange3Interp y0 y1 y2 y3 (Fin 0)"
  using assms
  by (auto simp add: Delay_process_def Let_def minus_sample_def split: option.splits)

lemma lagrange3Interp_zero:
  "lagrange3Interp (Fin a) (Fin b) (Fin c) (Fin d) (Fin 0) = Fin b"
  by (simp add: lagrange3Interp_def Let_def minus_sample_def)

text \<open>
  The parts of C3 that hold: for a buffer of at least four samples and a time that
  is not NaN, the write pointer advances first and wraps at the capacity, the input
  is written at the new position, and the four reads are inside the buffer. The
  integer read offset lies between 0 and the capacity less 3; at the capacity 4 the
  bounds of the clamp are 1 and 0.
\<close>

lemma clamped_time:
  assumes "timeInSamples \<noteq> NaN" and "4 \<le> n" and "n < 2 ^ 31"
  shows "\<exists>k. to_int (clamp (timeInSamples - Fin 1) (Fin 1) (Fin (of_int (n - 4)))) = Some k
             \<and> 0 \<le> k \<and> k \<le> n - 3"
proof (cases timeInSamples)
  case (Fin r)
  have "\<exists>k. to_int (clamp (Fin (r - 1)) (Fin 1) (Fin (of_int (n - 4)))) = Some k
             \<and> 0 \<le> k \<and> k \<le> n - 3"
  proof (cases "r - 1 < 1")
    case True
    then show ?thesis using assms(2,3) by (simp add: clamp_def trunc_def)
  next
    case False
    note ge = this
    show ?thesis
    proof (cases "of_int (n - 4) < r - 1")
      case True
      then show ?thesis using ge assms(2,3) by (simp add: clamp_def trunc_def)
    next
      case False
      then have le: "r - 1 \<le> of_int (n - 4)" by simp
      from ge have "1 \<le> r - 1" by simp
      then have f1: "1 \<le> \<lfloor>r - 1\<rfloor>" by linarith
      from le have f2: "\<lfloor>r - 1\<rfloor> \<le> n - 4" by (simp add: floor_le_iff) linarith
      show ?thesis using ge False f1 f2 assms(3) by (simp add: clamp_def trunc_def)
    qed
  qed
  then show ?thesis by (simp add: Fin minus_sample_def)
next
  case PInf
  then show ?thesis using assms(2,3) by (simp add: clamp_def minus_sample_def trunc_def)
next
  case NInf
  then show ?thesis using assms(2,3) by (simp add: clamp_def minus_sample_def trunc_def)
next
  case NaN
  with assms(1) show ?thesis by simp
qed

lemma Delay_reads_defined:
  assumes "0 \<le> w" and "w < int (length buf)" and "0 \<le> k" and "k \<le> int (length buf) - 3"
    and "0 \<le> j" and "j \<le> 3"
  shows "\<exists>y. load buf (wrap_index (w - k - j) (int (length buf))) = Some y"
  using assms by (auto simp add: load_def wrap_index_def)

lemma Delay_process_defined:
  assumes "4 \<le> length (delay_buf d)" and "length (delay_buf d) < 2 ^ 31"
    and "- 1 \<le> delay_wptr d" and "timeInSamples \<noteq> NaN"
  shows "\<exists>y w. Delay_process d input timeInSamples
                  = Some (y, \<lparr>delay_wptr = w, delay_buf = (delay_buf d)[nat w := input]\<rparr>)
               \<and> w = (if delay_wptr d + 1 \<ge> int (length (delay_buf d)) then 0
                        else delay_wptr d + 1)
               \<and> 0 \<le> w \<and> w < int (length (delay_buf d))"
proof -
  let ?n = "int (length (delay_buf d))"
  have n: "4 \<le> ?n" "?n < 2 ^ 31" using assms(1,2) by simp_all
  from clamped_time [OF assms(4) n] obtain k where
    k: "to_int (clamp (timeInSamples - Fin 1) (Fin 1) (Fin (of_int (?n - 4)))) = Some k"
       "0 \<le> k" "k \<le> ?n - 3" by auto
  define w where "w = (if delay_wptr d + 1 \<ge> ?n then 0 else delay_wptr d + 1)"
  have w: "0 \<le> w" "w < ?n" using assms(3) n(1) by (auto simp add: w_def)
  define buf where "buf = (delay_buf d)[nat w := input]"
  have len: "int (length buf) = ?n" by (simp add: buf_def)
  have st: "store (delay_buf d) w input = Some buf"
    using w by (simp add: store_def buf_def)
  from Delay_reads_defined [of w buf k 0] w k(2,3) len
  obtain y0 where y0: "load buf (wrap_index (w - k) ?n) = Some y0" by auto
  from Delay_reads_defined [of w buf k 1] w k(2,3) len
  obtain y1 where y1: "load buf (wrap_index (w - k - 1) ?n) = Some y1" by auto
  from Delay_reads_defined [of w buf k 2] w k(2,3) len
  obtain y2 where y2: "load buf (wrap_index (w - k - 2) ?n) = Some y2" by auto
  from Delay_reads_defined [of w buf k 3] w k(2,3) len
  obtain y3 where y3: "load buf (wrap_index (w - k - 3) ?n) = Some y3" by auto
  have "Delay_process d input timeInSamples
          = Some (lagrange3Interp y0 y1 y2 y3 (Fin (of_int k) - Fin (of_int k)),
                  d\<lparr>delay_wptr := w, delay_buf := buf\<rparr>)"
    unfolding Delay_process_def Let_def w_def [symmetric]
    using k(1) st y0 y1 y2 y3 by simp
  then show ?thesis using w by (cases d) (auto simp add: buf_def w_def)
qed

text \<open>
  C3 says that \<open>Delay::process\<close> reads at the fractional offset
  \<open>timeInSamples - 1\<close> clamped to \<open>[1, capacity - 4]\<close>. The delay line above is
  reached from \<open>setup(4)\<close>. With the time 3.5 the source converts the clamped 2.5
  to the \<open>int\<close> 2 and interpolates at the fraction 0: the call returns 4, the same
  as with the time 3, where the interpolation of the four samples 9, 4, 1, 0 at
  the fraction 1/2 is 9/4.
\<close>

theorem Delay_process_truncates_time:
  "Option.bind (Delay_setup Delay_init (Fin 4))
     (\<lambda>d. Delay_feed d [Fin 1, Fin 4, Fin 9, Fin 16] (Fin 2)) = Some delay_example
   \<and> Delay_process delay_example (Fin 25) (Fin (7 / 2))
       = Some (Fin 4,
           \<lparr>delay_wptr = 5,
            delay_buf = [Fin 0, Fin 1, Fin 4, Fin 9, Fin 16, Fin 25, Fin 0, Fin 0]\<rparr>)
   \<and> Delay_process delay_example (Fin 25) (Fin (7 / 2))
       = Delay_process delay_example (Fin 25) (Fin 3)
   \<and> lagrange3Interp (Fin 9) (Fin 4) (Fin 1) (Fin 0) (Fin (1 / 2)) = Fin (9 / 4)
   \<and> lagrange3Interp (Fin 9) (Fin 4) (Fin 1) (Fin 0) (Fin 0) = Fin 4"
  apply (intro conjI)
      apply (rule delay_example_reachable)
     apply (simp add: Delay_process_def delay_example_def clamp_def minus_sample_def trunc_def
      store_def load_def wrap_index_def lagrange3Interp_def Let_def)
    apply (simp add: Delay_process_def delay_example_def clamp_def minus_sample_def trunc_def
      store_def load_def wrap_index_def lagrange3Interp_def Let_def)
   apply (simp add: lagrange3Interp_def Let_def minus_sample_def)
  apply (simp add: lagrange3Interp_def Let_def minus_sample_def)
  done

end
